theory Spec2Isabelle
  imports Complex_Main "HOL-Library.Sublist" "HOL-Library.Log_Nat"
begin

section \<open>JavaScript strings\<close>

text \<open>
  A JavaScript string is modelled as a \<^typ>\<open>string\<close>, the list of its UTF-8 bytes. Every
  separator and every pattern of the analytics module is ASCII, and an ASCII byte never
  occurs inside a multi-byte UTF-8 sequence, so splitting and literal search agree with
  what JavaScript does on UTF-16 code units. A value that may be \<open>null\<close> or
  \<open>undefined\<close> is a \<^typ>\<open>string option\<close>; \<open>!s\<close> holds for \<open>None\<close> and for the empty
  string.
\<close>

definition falsy :: "string option \<Rightarrow> bool" where
  "falsy s = (case s of None \<Rightarrow> True | Some v \<Rightarrow> v = [])"

text \<open>\<open>s.split(c)\<close> for a one-character separator: one more part than separators.\<close>

fun split_on :: "char \<Rightarrow> string \<Rightarrow> string list" where
  "split_on c [] = [[]]"
| "split_on c (x # xs) =
     (if x = c then [] # split_on c xs
      else (case split_on c xs of [] \<Rightarrow> [[x]] | p # ps \<Rightarrow> (x # p) # ps))"

text \<open>\<open>parts.join(c)\<close> for a one-character separator.\<close>

fun join_with :: "char \<Rightarrow> string list \<Rightarrow> string" where
  "join_with c [] = []"
| "join_with c [p] = p"
| "join_with c (p # q # ps) = p @ c # join_with c (q # ps)"

section \<open>analytics.js: IP anonymisation\<close>

text \<open>
  \<^verbatim>\<open>
  function anonymizeIP(ip) {
    if (!ip) return 'unknown';
    const parts = ip.split('.');
    if (parts.length === 4) {
      return `${parts[0]}.${parts[1]}.${parts[2]}.xxx`;
    }
    const v6parts = ip.split(':');
    if (v6parts.length > 3) {
      return `${v6parts.slice(0, 3).join(':')}::xxx`;
    }
    return 'unknown';
  }
  \<close>
\<close>

definition anonymizeIP :: "string option \<Rightarrow> string" where
  "anonymizeIP ip =
     (case ip of
        None \<Rightarrow> ''unknown''
      | Some s \<Rightarrow>
          if s = [] then ''unknown''
          else (case split_on CHR ''.'' s of
                  [p0, p1, p2, p3] \<Rightarrow> p0 @ ''.'' @ p1 @ ''.'' @ p2 @ ''.xxx''
                | _ \<Rightarrow>
                    (let v6parts = split_on CHR '':'' s in
                     if length v6parts > 3
                     then join_with CHR '':'' (take 3 v6parts) @ ''::xxx''
                     else ''unknown'')))"

section \<open>analytics.js: pattern tests\<close>

text \<open>
  The patterns of the module are literals tested with the \<open>i\<close> flag and without the
  \<open>u\<close> flag. An ASCII pattern character then matches exactly its two ASCII cases (a
  non-ASCII character never canonicalises to an ASCII one), so \<open>/pat/i.test(s)\<close> is
  literal search after lowering the ASCII letters on both sides.
\<close>

definition lower_ascii :: "char \<Rightarrow> char" where
  "lower_ascii c =
     (let n = (of_char c :: int) in if 65 \<le> n \<and> n \<le> 90 then char_of (n + 32) else c)"

definition test_i :: "string \<Rightarrow> string \<Rightarrow> bool" where
  "test_i pat s = sublist (map lower_ascii pat) (map lower_ascii s)"

text \<open>
  \<^verbatim>\<open>
  function isBot(userAgent) {
    if (!userAgent) return true;
    const botPatterns = [ /googlebot/i, /bingbot/i, ... , /screaming/i ];
    return botPatterns.some(pattern => pattern.test(userAgent));
  }
  \<close>
  The escaped patterns \<open>/java\//i\<close>, \<open>/php\//i\<close> and \<open>/moz\.com/i\<close> are the literals
  \<open>java/\<close>, \<open>php/\<close> and \<open>moz.com\<close>.
\<close>

definition botPatterns :: "string list" where
  "botPatterns =
     [''googlebot'', ''bingbot'', ''slurp'', ''duckduckbot'',
      ''baiduspider'', ''yandexbot'', ''sogou'', ''exabot'',
      ''facebookexternalhit'', ''twitterbot'', ''linkedinbot'',
      ''whatsapp'', ''telegrambot'', ''pinterest'', ''slackbot'',
      ''bot'', ''crawler'', ''spider'', ''crawling'', ''scraper'',
      ''curl'', ''wget'', ''httpie'', ''postman'',
      ''python-requests'', ''python-urllib'', ''java/'', ''php/'',
      ''go-http-client'', ''ruby'', ''perl'',
      ''headless'', ''phantom'', ''selenium'', ''puppeteer'', ''playwright'',
      ''uptimerobot'', ''pingdom'', ''statuscake'', ''gtmetrix'',
      ''ahrefs'', ''semrush'', ''moz.com'', ''dotbot'', ''majestic'', ''screaming'']"

definition isBot :: "string option \<Rightarrow> bool" where
  "isBot userAgent =
     (case userAgent of
        None \<Rightarrow> True
      | Some ua \<Rightarrow> if ua = [] then True else list_ex (\<lambda>pattern. test_i pattern ua) botPatterns)"

section \<open>analytics.js: browser, operating system and device\<close>

text \<open>
  \<^verbatim>\<open>
  function detectBrowser(ua) {
    if (!ua) return 'Unknown';
    if (/edg/i.test(ua)) return 'Edge';
    if (/opr|opera/i.test(ua)) return 'Opera';
    if (/chrome/i.test(ua) && !/edg/i.test(ua)) return 'Chrome';
    if (/safari/i.test(ua) && !/chrome/i.test(ua)) return 'Safari';
    if (/firefox/i.test(ua)) return 'Firefox';
    if (/msie|trident/i.test(ua)) return 'IE';
    return 'Other';
  }
  \<close>
\<close>

definition detectBrowser :: "string option \<Rightarrow> string" where
  "detectBrowser ua' =
     (case ua' of
        None \<Rightarrow> ''Unknown''
      | Some ua \<Rightarrow>
          if ua = [] then ''Unknown''
          else if test_i ''edg'' ua then ''Edge''
          else if test_i ''opr'' ua \<or> test_i ''opera'' ua then ''Opera''
          else if test_i ''chrome'' ua \<and> \<not> test_i ''edg'' ua then ''Chrome''
          else if test_i ''safari'' ua \<and> \<not> test_i ''chrome'' ua then ''Safari''
          else if test_i ''firefox'' ua then ''Firefox''
          else if test_i ''msie'' ua \<or> test_i ''trident'' ua then ''IE''
          else ''Other'')"

text \<open>
  \<^verbatim>\<open>
  function detectOS(ua) {
    if (!ua) return 'Unknown';
    if (/windows nt 10/i.test(ua)) return 'Windows 10/11';
    if (/windows/i.test(ua)) return 'Windows';
    if (/macintosh|mac os x/i.test(ua)) return 'macOS';
    if (/iphone/i.test(ua)) return 'iOS';
    if (/ipad/i.test(ua)) return 'iPadOS';
    if (/android/i.test(ua)) return 'Android';
    if (/linux/i.test(ua)) return 'Linux';
    if (/cros/i.test(ua)) return 'ChromeOS';
    return 'Other';
  }
  \<close>
\<close>

definition detectOS :: "string option \<Rightarrow> string" where
  "detectOS ua' =
     (case ua' of
        None \<Rightarrow> ''Unknown''
      | Some ua \<Rightarrow>
          if ua = [] then ''Unknown''
          else if test_i ''windows nt 10'' ua then ''Windows 10/11''
          else if test_i ''windows'' ua then ''Windows''
          else if test_i ''macintosh'' ua \<or> test_i ''mac os x'' ua then ''macOS''
          else if test_i ''iphone'' ua then ''iOS''
          else if test_i ''ipad'' ua then ''iPadOS''
          else if test_i ''android'' ua then ''Android''
          else if test_i ''linux'' ua then ''Linux''
          else if test_i ''cros'' ua then ''ChromeOS''
          else ''Other'')"

text \<open>
  The device patterns use \<open>.*\<close>, which stops at a line terminator: line feed, carriage
  return, U+2028 and U+2029 (the bytes E2 80 A8 and E2 80 A9).
\<close>

definition line_terminator_at :: "string \<Rightarrow> bool" where
  "line_terminator_at s =
     (prefix [CHR 0x0A] s \<or> prefix [CHR 0x0D] s \<or>
      prefix [CHR 0xE2, CHR 0x80, CHR 0xA8] s \<or> prefix [CHR 0xE2, CHR 0x80, CHR 0xA9] s)"

fun line_prefix :: "string \<Rightarrow> string" where
  "line_prefix [] = []"
| "line_prefix (x # xs) = (if line_terminator_at (x # xs) then [] else x # line_prefix xs)"

text \<open>\<open>/.*pat/i\<close> anchored at the start of \<open>s\<close>: the pattern occurs before the first line end.\<close>

definition dotstar_i :: "string \<Rightarrow> string \<Rightarrow> bool" where
  "dotstar_i pat s = test_i pat (line_prefix s)"

text \<open>Some occurrence of the literal \<open>pat\<close> (ignoring case) whose remainder satisfies \<open>P\<close>.\<close>

fun test_i_then :: "string \<Rightarrow> (string \<Rightarrow> bool) \<Rightarrow> string \<Rightarrow> bool" where
  "test_i_then pat P [] = (pat = [] \<and> P [])"
| "test_i_then pat P (x # xs) =
     ((prefix (map lower_ascii pat) (map lower_ascii (x # xs)) \<and> P (drop (length pat) (x # xs)))
      \<or> test_i_then pat P xs)"

text \<open>
  \<^verbatim>\<open>
  function detectDevice(ua) {
    if (!ua) return 'unknown';
    if (/mobile|android.*mobile|iphone/i.test(ua)) return 'mobile';
    if (/ipad|tablet|android(?!.*mobile)/i.test(ua)) return 'tablet';
    return 'desktop';
  }
  \<close>
\<close>

definition mobile_re :: "string \<Rightarrow> bool" where
  "mobile_re ua =
     (test_i ''mobile'' ua \<or> test_i_then ''android'' (dotstar_i ''mobile'') ua \<or> test_i ''iphone'' ua)"

definition tablet_re :: "string \<Rightarrow> bool" where
  "tablet_re ua =
     (test_i ''ipad'' ua \<or> test_i ''tablet'' ua \<or>
      test_i_then ''android'' (\<lambda>rest. \<not> dotstar_i ''mobile'' rest) ua)"

definition detectDevice :: "string option \<Rightarrow> string" where
  "detectDevice ua' =
     (case ua' of
        None \<Rightarrow> ''unknown''
      | Some ua \<Rightarrow>
          if ua = [] then ''unknown''
          else if mobile_re ua then ''mobile''
          else if tablet_re ua then ''tablet''
          else ''desktop'')"

section \<open>analytics.js: referrer\<close>

text \<open>
  \<^verbatim>\<open>
  function cleanReferrer(ref) {
    if (!ref) return 'direct';
    try {
      const url = new URL(ref);
      if (url.hostname.includes('allgood.click')) return 'internal';
      return url.hostname.replace('www.', '');
    } catch {
      return 'direct';
    }
  }
  \<close>
  \<open>new URL\<close> is the platform's parser; it is a parameter that either throws or yields the
  parsed address, of which only the host name is read. \<open>replace\<close> with a string pattern
  replaces the first occurrence.
\<close>

datatype js_error = TypeError string | RangeError string | ReferenceError string | Error string

text \<open>\<open>error.message\<close>\<close>

fun error_message :: "js_error \<Rightarrow> string" where
  "error_message (TypeError m) = m"
| "error_message (RangeError m) = m"
| "error_message (ReferenceError m) = m"
| "error_message (Error m) = m"

record url =
  hostname :: string

fun replace_first :: "string \<Rightarrow> string \<Rightarrow> string \<Rightarrow> string" where
  "replace_first pat rep [] = (if pat = [] then rep else [])"
| "replace_first pat rep (x # xs) =
     (if prefix pat (x # xs) then rep @ drop (length pat) (x # xs)
      else x # replace_first pat rep xs)"

definition cleanReferrer_try :: "(string \<Rightarrow> js_error + url) \<Rightarrow> string \<Rightarrow> js_error + string" where
  "cleanReferrer_try new_URL ref =
     (case new_URL ref of
        Inl e \<Rightarrow> Inl e
      | Inr u \<Rightarrow>
          if sublist ''allgood.click'' (hostname u) then Inr ''internal''
          else Inr (replace_first ''www.'' [] (hostname u)))"

definition cleanReferrer :: "(string \<Rightarrow> js_error + url) \<Rightarrow> string option \<Rightarrow> string" where
  "cleanReferrer new_URL ref' =
     (case ref' of
        None \<Rightarrow> ''direct''
      | Some ref \<Rightarrow>
          if ref = [] then ''direct''
          else (case cleanReferrer_try new_URL ref of Inl e \<Rightarrow> ''direct'' | Inr v \<Rightarrow> v))"

text \<open>
  The classifiers described as ordered rule tables: the first rule whose test holds gives
  the category, and the default is returned when none does.
\<close>

fun first_match :: "((string \<Rightarrow> bool) \<times> string) list \<Rightarrow> string \<Rightarrow> string \<Rightarrow> string" where
  "first_match [] dflt s = dflt"
| "first_match ((p, v) # rules) dflt s = (if p s then v else first_match rules dflt s)"

definition browser_rules :: "((string \<Rightarrow> bool) \<times> string) list" where
  "browser_rules =
     [(test_i ''edg'', ''Edge''),
      (\<lambda>ua. test_i ''opr'' ua \<or> test_i ''opera'' ua, ''Opera''),
      (\<lambda>ua. test_i ''chrome'' ua \<and> \<not> test_i ''edg'' ua, ''Chrome''),
      (\<lambda>ua. test_i ''safari'' ua \<and> \<not> test_i ''chrome'' ua, ''Safari''),
      (test_i ''firefox'', ''Firefox''),
      (\<lambda>ua. test_i ''msie'' ua \<or> test_i ''trident'' ua, ''IE'')]"

definition os_rules :: "((string \<Rightarrow> bool) \<times> string) list" where
  "os_rules =
     [(test_i ''windows nt 10'', ''Windows 10/11''),
      (test_i ''windows'', ''Windows''),
      (\<lambda>ua. test_i ''macintosh'' ua \<or> test_i ''mac os x'' ua, ''macOS''),
      (test_i ''iphone'', ''iOS''),
      (test_i ''ipad'', ''iPadOS''),
      (test_i ''android'', ''Android''),
      (test_i ''linux'', ''Linux''),
      (test_i ''cros'', ''ChromeOS'')]"

definition device_rules :: "((string \<Rightarrow> bool) \<times> string) list" where
  "device_rules = [(mobile_re, ''mobile''), (tablet_re, ''tablet'')]"

section \<open>analytics.js: dates and the text of a timestamp\<close>

text \<open>
  The time value of a \<open>Date\<close> is the number of milliseconds since
  1970-01-01T00:00:00Z, of magnitude at most \<open>8.64 * 10^15\<close>; a \<open>Date\<close> without time
  value (an invalid date) is \<open>None\<close>. The local time zone is a parameter, in the two
  readings of \<open>LocalTZA\<close>: the offset from UTC in force at a UTC time, and the offset in
  force at a local time.
\<close>

type_synonym date = int

record time_zone =
  LocalTZA_utc :: "int \<Rightarrow> int"
  LocalTZA_local :: "int \<Rightarrow> int"

definition msPerDay :: int where
  "msPerDay = 86400000"

definition TimeClip :: "int \<Rightarrow> date option" where
  "TimeClip t = (if \<bar>t\<bar> > 8640000000000000 then None else Some t)"

text \<open>
  \<open>d.setDate(d.getDate() - n)\<close> on a valid date: the local time is moved back by \<open>n\<close>
  calendar days, its time within the day kept, and read as local time again.
\<close>

definition setDate_minus :: "time_zone \<Rightarrow> date \<Rightarrow> int \<Rightarrow> date option" where
  "setDate_minus tz d n =
     (let t = d + LocalTZA_utc tz d;
          newDate = t - n * msPerDay
      in TimeClip (newDate - LocalTZA_local tz newDate))"

text \<open>Year, month (1 to 12) and day of the month of a day number counted from 1970-01-01.\<close>

definition civil_from_days :: "int \<Rightarrow> int \<times> int \<times> int" where
  "civil_from_days z0 =
     (let z = z0 + 719468;
          era = z div 146097;
          doe = z - era * 146097;
          yoe = (doe - doe div 1460 + doe div 36524 - doe div 146096) div 365;
          doy = doe - (365 * yoe + yoe div 4 - yoe div 100);
          mp = (5 * doy + 2) div 153;
          d = doy - (153 * mp + 2) div 5 + 1;
          m = (if mp < 10 then mp + 3 else mp - 9);
          y = yoe + era * 400 + (if m \<le> 2 then 1 else 0)
      in (y, m, d))"

text \<open>The last \<open>n\<close> decimal digits of \<open>k\<close>, zero-padded.\<close>

fun pad :: "nat \<Rightarrow> int \<Rightarrow> string" where
  "pad 0 k = []"
| "pad (Suc n) k = pad n (k div 10) @ [char_of (48 + k mod 10)]"

text \<open>The date and the time of day of a time value, in UTC, the year in four digits.\<close>

definition ymd :: "date \<Rightarrow> string" where
  "ymd t = (case civil_from_days (t div msPerDay) of
              (y, m, d) \<Rightarrow> pad 4 y @ ''-'' @ pad 2 m @ ''-'' @ pad 2 d)"

definition hms :: "date \<Rightarrow> string" where
  "hms t = (let s = (t mod msPerDay) div 1000
            in pad 2 (s div 3600) @ '':'' @ pad 2 ((s div 60) mod 60) @ '':'' @ pad 2 (s mod 60))"

text \<open>
  \<open>d.toISOString()\<close>: \<open>YYYY-MM-DDTHH:MM:SS.sssZ\<close>, the year with sign and six digits
  outside 0 to 9999; a \<open>RangeError\<close> on an invalid date.
\<close>

definition iso_date :: "date \<Rightarrow> string" where
  "iso_date t =
     (case civil_from_days (t div msPerDay) of
        (y, m, d) \<Rightarrow>
          (if 0 \<le> y \<and> y \<le> 9999 then pad 4 y
           else (if y < 0 then ''-'' else ''+'') @ pad 6 \<bar>y\<bar>)
          @ ''-'' @ pad 2 m @ ''-'' @ pad 2 d)"

definition toISOString :: "date option \<Rightarrow> js_error + string" where
  "toISOString d' =
     (case d' of
        None \<Rightarrow> Inl (RangeError ''Invalid time value'')
      | Some t \<Rightarrow> Inr (iso_date t @ ''T'' @ hms t @ ''.'' @ pad 3 (t mod 1000) @ ''Z''))"

text \<open>
  SQLite's \<open>CURRENT_TIMESTAMP\<close>, the default of the column: \<open>YYYY-MM-DD HH:MM:SS\<close> in UTC.
  Its argument is the clock of the server, a time of the years 0 to 9999, the range of
  SQLite's dates.
\<close>

definition CURRENT_TIMESTAMP :: "date \<Rightarrow> string" where
  "CURRENT_TIMESTAMP t = ymd t @ '' '' @ hms t"

text \<open>
  The column \<open>timestamp DATETIME\<close> has numeric affinity; a text that is not a number is
  stored as text, and so is the bound ISO string. SQLite compares two texts byte by byte
  (the \<open>BINARY\<close> collation), a proper prefix being smaller.
\<close>

fun text_less :: "string \<Rightarrow> string \<Rightarrow> bool" where
  "text_less [] [] = False"
| "text_less [] (y # ys) = True"
| "text_less (x # xs) [] = False"
| "text_less (x # xs) (y # ys) =
     (if x = y then text_less xs ys else (of_char x :: int) < of_char y)"

section \<open>analytics.js: the pageview table\<close>

text \<open>
  \<^verbatim>\<open>
  CREATE TABLE IF NOT EXISTS pageviews (
    id INTEGER PRIMARY KEY AUTOINCREMENT,
    timestamp DATETIME DEFAULT CURRENT_TIMESTAMP,
    page TEXT, ip_anonymized TEXT, country TEXT, language TEXT, referrer TEXT,
    user_agent TEXT, browser TEXT, os TEXT, device_type TEXT,
    is_bot INTEGER DEFAULT 0 )
  \<close>
  The column \<open>id\<close> is the field \<open>row_id\<close>.
\<close>

record pageview =
  row_id :: nat
  timestamp :: string
  page :: string
  ip_anonymized :: string
  country :: string
  language :: string
  referrer :: string
  user_agent :: string
  browser :: string
  os :: string
  device_type :: string
  is_bot :: nat

text \<open>The table and the largest row id handed out so far (\<open>AUTOINCREMENT\<close>).\<close>

record db =
  pageviews :: "pageview list"
  sequence :: nat

text \<open>What \<open>trackPageview\<close> reads of an Express request.\<close>

record request =
  headers :: "string \<Rightarrow> string option"
  ip :: "string option"
  remoteAddress :: "string option"

text \<open>\<open>a || b\<close> on values that are strings or missing.\<close>

definition or_else :: "string option \<Rightarrow> string option \<Rightarrow> string option" where
  "or_else a b = (if falsy a then b else a)"

definition or_default :: "string option \<Rightarrow> string \<Rightarrow> string" where
  "or_default a d = (case a of None \<Rightarrow> d | Some v \<Rightarrow> if v = [] then d else v)"

text \<open>
  \<open>s.trim()\<close> removes white space and line terminators from both ends: the six ASCII
  ones, U+00A0, U+1680, U+2000 to U+200A, U+2028, U+2029, U+202F, U+205F, U+3000 and
  U+FEFF, here in their UTF-8 bytes.
\<close>

definition white_space :: "string list" where
  "white_space =
     [[CHR 0x09], [CHR 0x0A], [CHR 0x0B], [CHR 0x0C], [CHR 0x0D], [CHR 0x20],
      [CHR 0xC2, CHR 0xA0], [CHR 0xE1, CHR 0x9A, CHR 0x80],
      [CHR 0xE2, CHR 0x80, CHR 0x80], [CHR 0xE2, CHR 0x80, CHR 0x81], [CHR 0xE2, CHR 0x80, CHR 0x82],
      [CHR 0xE2, CHR 0x80, CHR 0x83], [CHR 0xE2, CHR 0x80, CHR 0x84], [CHR 0xE2, CHR 0x80, CHR 0x85],
      [CHR 0xE2, CHR 0x80, CHR 0x86], [CHR 0xE2, CHR 0x80, CHR 0x87], [CHR 0xE2, CHR 0x80, CHR 0x88],
      [CHR 0xE2, CHR 0x80, CHR 0x89], [CHR 0xE2, CHR 0x80, CHR 0x8A], [CHR 0xE2, CHR 0x80, CHR 0xA8],
      [CHR 0xE2, CHR 0x80, CHR 0xA9], [CHR 0xE2, CHR 0x80, CHR 0xAF], [CHR 0xE2, CHR 0x81, CHR 0x9F],
      [CHR 0xE3, CHR 0x80, CHR 0x80], [CHR 0xEF, CHR 0xBB, CHR 0xBF]]"

text \<open>Removes from the front every sequence of the list, each of one to three bytes.\<close>

fun strip_front :: "string list \<Rightarrow> string \<Rightarrow> string" where
  "strip_front ws [] = []"
| "strip_front ws (x # xs) =
     (if [x] \<in> set ws then strip_front ws xs
      else if x # take 1 xs \<in> set ws then strip_front ws (drop 1 xs)
      else if x # take 2 xs \<in> set ws then strip_front ws (drop 2 xs)
      else x # xs)"

definition trim :: "string \<Rightarrow> string" where
  "trim s = rev (strip_front (map rev white_space) (rev (strip_front white_space s)))"

text \<open>
  \<open>toUpperCase\<close> and \<open>toLowerCase\<close> on the ASCII range; header values outside it are left
  as they are.
\<close>

definition upper_ascii :: "char \<Rightarrow> char" where
  "upper_ascii c =
     (let n = (of_char c :: int) in if 97 \<le> n \<and> n \<le> 122 then char_of (n - 32) else c)"

definition toUpperCase :: "string \<Rightarrow> string" where
  "toUpperCase s = map upper_ascii s"

definition toLowerCase :: "string \<Rightarrow> string" where
  "toLowerCase s = map lower_ascii s"

definition is_lower :: "char \<Rightarrow> bool" where
  "is_lower c = (97 \<le> (of_char c :: int) \<and> (of_char c :: int) \<le> 122)"

definition is_upper :: "char \<Rightarrow> bool" where
  "is_upper c = (65 \<le> (of_char c :: int) \<and> (of_char c :: int) \<le> 90)"

text \<open>
  \<^verbatim>\<open>
  function extractCountryFromLang(acceptLang) {
    if (!acceptLang) return null;
    const match = acceptLang.match(/[a-z]{2}-([A-Z]{2})/);
    return match ? match[1] : null;
  }
  \<close>
\<close>

fun country_match :: "string \<Rightarrow> string option" where
  "country_match (a # b # c # d # e # rest) =
     (if is_lower a \<and> is_lower b \<and> c = CHR ''-'' \<and> is_upper d \<and> is_upper e then Some [d, e]
      else country_match (b # c # d # e # rest))"
| "country_match _ = None"

definition extractCountryFromLang :: "string option \<Rightarrow> string option" where
  "extractCountryFromLang acceptLang =
     (case acceptLang of
        None \<Rightarrow> None
      | Some s \<Rightarrow> if s = [] then None else country_match s)"

text \<open>\<open>page.match(/^\/(de|es|fr|pt)\/?/)\<close>: the captured language, if any.\<close>

definition langMatch :: "string \<Rightarrow> string option" where
  "langMatch pg =
     (if prefix ''/de'' pg then Some ''de''
      else if prefix ''/es'' pg then Some ''es''
      else if prefix ''/fr'' pg then Some ''fr''
      else if prefix ''/pt'' pg then Some ''pt''
      else None)"

text \<open>\<open>s?.split(c)[0]\<close>: the text before the first separator.\<close>

definition first_part :: "char \<Rightarrow> string \<Rightarrow> string" where
  "first_part c s = (case split_on c s of [] \<Rightarrow> [] | p # ps \<Rightarrow> p)"

text \<open>
  \<^verbatim>\<open>
  function trackPageview(req, page) {
    try {
      const ua = req.headers['user-agent'] || '';
      const ip = req.headers['cf-connecting-ip']
        || req.headers['x-real-ip']
        || req.headers['x-forwarded-for']?.split(',')[0]?.trim()
        || req.ip
        || req.connection?.remoteAddress
        || 'unknown';
      const country = req.headers['cf-ipcountry']
        || extractCountryFromLang(req.headers['accept-language'])
        || 'unknown';
      const langMatch = page.match(/^\/(de|es|fr|pt)\/?/);
      const language = langMatch
        ? langMatch[1]
        : req.headers['accept-language']?.split(',')[0]?.split('-')[0] || 'en';
      const stmt = db.prepare(`INSERT INTO pageviews (page, ip_anonymized, country,
        language, referrer, user_agent, browser, os, device_type, is_bot)
        VALUES (?, ?, ?, ?, ?, ?, ?, ?, ?, ?)`);
      stmt.run(page, anonymizeIP(ip), country.toUpperCase(), language.toLowerCase(),
        cleanReferrer(req.headers.referer || req.headers.referrer),
        ua.substring(0, 500), detectBrowser(ua), detectOS(ua), detectDevice(ua),
        isBot(ua) ? 1 : 0);
    } catch (error) {
      console.error('Analytics tracking error:', error.message);
    }
  }
  \<close>
  The clock read by \<open>CURRENT_TIMESTAMP\<close> is the argument \<open>now\<close>. A failure of the database
  (\<open>fault\<close>) is caught and leaves the table as it was.
\<close>

definition pageview_of :: "(string \<Rightarrow> js_error + url) \<Rightarrow> request \<Rightarrow> string \<Rightarrow> pageview" where
  "pageview_of new_URL req pg =
     (let ua = or_default (headers req ''user-agent'') [];
          ip' = or_default
                 (or_else (headers req ''cf-connecting-ip'')
                   (or_else (headers req ''x-real-ip'')
                     (or_else (map_option (\<lambda>v. trim (first_part CHR '','' v)) (headers req ''x-forwarded-for''))
                       (or_else (ip req) (remoteAddress req)))))
                 ''unknown'';
          country' = or_default
                 (or_else (headers req ''cf-ipcountry'')
                   (extractCountryFromLang (headers req ''accept-language'')))
                 ''unknown'';
          language' = (case langMatch pg of
                         Some l \<Rightarrow> l
                       | None \<Rightarrow>
                           or_default
                             (map_option (\<lambda>v. first_part CHR ''-'' (first_part CHR '','' v))
                                (headers req ''accept-language''))
                             ''en'')
      in \<lparr>row_id = 0, timestamp = [], page = pg,
          ip_anonymized = anonymizeIP (Some ip'),
          country = toUpperCase country',
          language = toLowerCase language',
          referrer = cleanReferrer new_URL (or_else (headers req ''referer'') (headers req ''referrer'')),
          user_agent = take 500 ua,
          browser = detectBrowser (Some ua),
          os = detectOS (Some ua),
          device_type = detectDevice (Some ua),
          is_bot = (if isBot (Some ua) then 1 else 0)\<rparr>)"

definition insert_row :: "date \<Rightarrow> pageview \<Rightarrow> db \<Rightarrow> db" where
  "insert_row now r d =
     \<lparr>pageviews = pageviews d @ [r\<lparr>row_id := Suc (sequence d), timestamp := CURRENT_TIMESTAMP now\<rparr>],
      sequence = Suc (sequence d)\<rparr>"

definition trackPageview ::
  "(string \<Rightarrow> js_error + url) \<Rightarrow> js_error option \<Rightarrow> date \<Rightarrow> request \<Rightarrow> string \<Rightarrow> db \<Rightarrow> db" where
  "trackPageview new_URL fault now req pg d =
     (case fault of
        Some e \<Rightarrow> d
      | None \<Rightarrow> insert_row now (pageview_of new_URL req pg) d)"

text \<open>
  \<^verbatim>\<open>
  function getStats(days = 30) {
    const since = new Date();
    since.setDate(since.getDate() - days);
    const sinceStr = since.toISOString();
    try {
      return {
        period: `${days} days`, generated: new Date().toISOString(),
        total: db.prepare(`SELECT COUNT(*) as count FROM pageviews WHERE timestamp > ?`)
                 .get(sinceStr).count,
        humans: ... WHERE timestamp > ? AND is_bot = 0 ...,
        bots: ... WHERE timestamp > ? AND is_bot = 1 ...,
        byPage: ..., byCountry: ..., ..., topBots: ...
      };
    } catch (error) { return { error: error.message }; }
  }
  \<close>
  Every statement of \<open>getStats\<close> is a \<open>SELECT\<close>; the three counts are modelled, the grouped
  breakdowns (whose order among equal counts SQLite leaves open) are not.
\<close>

record stats =
  stats_total :: nat
  stats_humans :: nat
  stats_bots :: nat

text \<open>What \<open>getStats\<close> returns: the statistics, or \<open>{ error: error.message }\<close>.\<close>

datatype stats_result = Stats stats | StatsError string

text \<open>
  The cutoff is computed and printed before the \<open>try\<close>: a \<open>RangeError\<close> of \<open>toISOString\<close>
  is thrown to the caller, a failure of the database (\<open>fault\<close>) is caught and returned.
\<close>

definition getStats ::
  "time_zone \<Rightarrow> js_error option \<Rightarrow> date \<Rightarrow> int \<Rightarrow> db \<Rightarrow> (js_error + stats_result) \<times> db" where
  "getStats tz fault now days d =
     (case toISOString (setDate_minus tz now days) of
        Inl e \<Rightarrow> (Inl e, d)
      | Inr sinceStr \<Rightarrow>
          (let recent = filter (\<lambda>r. text_less sinceStr (timestamp r)) (pageviews d)
           in case fault of
                Some e \<Rightarrow> (Inr (StatsError (error_message e)), d)
              | None \<Rightarrow>
                  (Inr (Stats \<lparr>stats_total = length recent,
                               stats_humans = length (filter (\<lambda>r. is_bot r = 0) recent),
                               stats_bots = length (filter (\<lambda>r. is_bot r = 1) recent)\<rparr>), d)))"

text \<open>
  \<^verbatim>\<open>
  function cleanupOldData(keepDays = 90) {
    const cutoff = new Date();
    cutoff.setDate(cutoff.getDate() - keepDays);
    const result = db.prepare(`DELETE FROM pageviews WHERE timestamp < ?`)
                     .run(cutoff.toISOString());
    return result.changes;
  }
  \<close>
  There is no \<open>try\<close> here: a \<open>RangeError\<close> of \<open>toISOString\<close> and a failure of the database
  are thrown to the caller.
\<close>

definition cleanupOldData ::
  "time_zone \<Rightarrow> js_error option \<Rightarrow> date \<Rightarrow> int \<Rightarrow> db \<Rightarrow> (js_error + nat) \<times> db" where
  "cleanupOldData tz fault now keepDays d =
     (case toISOString (setDate_minus tz now keepDays) of
        Inl e \<Rightarrow> (Inl e, d)
      | Inr cutoff \<Rightarrow>
          (let old = (\<lambda>r. text_less (timestamp r) cutoff)
           in case fault of
                Some e \<Rightarrow> (Inl e, d)
              | None \<Rightarrow>
                  (Inr (length (filter old (pageviews d))),
                   d\<lparr>pageviews := filter (\<lambda>r. \<not> old r) (pageviews d)\<rparr>)))"

section \<open>server.js: tax data of a completed checkout\<close>

text \<open>
  A JavaScript number is an IEEE 754 double. A finite one is modelled by its exact
  value, a rational, and an arithmetic operation yields the double nearest to the exact
  result, a tie going to the even significand of 53 bits. The model covers the normal
  range \<open>2^-1022 \<le> |x| < 2^1024\<close>; the handler stays inside it: the amounts are whole
  doubles and the percentage is a positive double, so that the sum \<open>100 + R\<close> lies
  between \<open>100\<close> and the largest double, and a quotient that is not zero is at least
  \<open>100\<close> over the largest double.
\<close>

text \<open>The exponent \<open>e\<close> of \<open>x \<noteq> 0\<close>: \<open>2^e \<le> |x| < 2^(e+1)\<close>.\<close>

definition expo :: "rat \<Rightarrow> int" where
  "expo x =
     (case quotient_of \<bar>x\<bar> of
        (a, b) \<Rightarrow> (let k = bitlen a - bitlen b in if 2 powi k \<le> \<bar>x\<bar> then k else k - 1))"

text \<open>The nearest integer, a half going to the even one.\<close>

definition round_even :: "rat \<Rightarrow> int" where
  "round_even m =
     (let f = \<lfloor>m\<rfloor>; d = m - of_int f
      in if d < 1 / 2 then f else if 1 / 2 < d then f + 1 else if even f then f else f + 1)"

text \<open>The double nearest to \<open>x\<close>.\<close>

definition fl :: "rat \<Rightarrow> rat" where
  "fl x = (if x = 0 then 0
           else (let u = 2 powi (expo x - 52) in of_int (round_even (x / u)) * u))"

text \<open>\<open>a + b\<close>, \<open>a * b\<close> and \<open>a / b\<close> (for \<open>b \<noteq> 0\<close>) on numbers.\<close>

definition js_add :: "rat \<Rightarrow> rat \<Rightarrow> rat" where
  "js_add a b = fl (a + b)"

definition js_mul :: "rat \<Rightarrow> rat \<Rightarrow> rat" where
  "js_mul a b = fl (a * b)"

definition js_div :: "rat \<Rightarrow> rat \<Rightarrow> rat" where
  "js_div a b = fl (a / b)"

text \<open>
  \<open>Math.round(x)\<close> is the integer nearest to the number \<open>x\<close>, a half going up; it is
  computed on \<open>x\<close> exactly.
\<close>

definition Math_round :: "rat \<Rightarrow> int" where
  "Math_round x = \<lfloor>x + 1 / 2\<rfloor>"

text \<open>\<open>x || 0\<close> on a number that may be missing.\<close>

definition or0 :: "'a::zero option \<Rightarrow> 'a" where
  "or0 x = (case x of None \<Rightarrow> 0 | Some v \<Rightarrow> v)"

text \<open>A Stripe tax rate: \<open>percentage\<close> (a number) and \<open>inclusive\<close>.\<close>

record tax_rate =
  percentage :: "rat option"
  inclusive :: bool

text \<open>\<open>tax_amounts[i].tax_rate\<close> is the identifier of a tax rate or the expanded object.\<close>

datatype tax_rate_ref = RateId string | RateObject tax_rate

text \<open>An element of \<open>invoice.lines.data[i].tax_amounts\<close>: \<open>inclusive\<close> and \<open>tax_rate\<close>.\<close>

record tax_amount =
  ta_inclusive :: bool
  ta_tax_rate :: "tax_rate_ref option"

record invoice_line =
  tax_amounts :: "tax_amount list"

text \<open>
  A Stripe invoice; \<open>lines\<close> is \<open>invoice.lines.data\<close>. The amounts are whole numbers of
  the smallest currency unit.
\<close>

record invoice =
  tax :: "int option"
  total :: int
  subtotal :: "int option"
  lines :: "invoice_line list"

text \<open>An element of \<open>line_items.data[i].taxes\<close>, and a line item of a session.\<close>

record line_item_tax =
  rate :: "tax_rate option"

record line_item =
  taxes :: "line_item_tax list"

datatype invoice_ref = InvoiceId string | InvoiceObject invoice

text \<open>
  A checkout session: \<open>amount_tax\<close> is \<open>total_details.amount_tax\<close>, \<open>line_items\<close> is
  \<open>line_items.data\<close>, the \<open>details_\<close> fields are those of \<open>customer_details\<close>, and
  \<open>tax_ids\<close> holds the \<open>value\<close> of each of its tax ids.
\<close>

record checkout_session =
  session_id :: string
  invoice :: "invoice_ref option"
  amount_total :: int
  amount_tax :: "int option"
  line_items :: "line_item list"
  currency :: string
  mode :: string
  customer :: "string option"
  customer_email :: "string option"
  payment_intent :: "string option"
  details_email :: "string option"
  details_name :: "string option"
  details_country :: "string option"
  tax_ids :: "string list"
  tax_exempt :: "string option"

text \<open>The two log lines that name the branch taken.\<close>

datatype log_line = ReverseChargeDetected | TaxInclusiveNet

text \<open>The three variables the handler fills in, and what it logged on the way.\<close>

record tax_data =
  taxAmount :: int
  taxRatePercentage :: rat
  subtotalAmount :: int
  logged :: "log_line list"

text \<open>
  \<^verbatim>\<open>
  if (taxAmountData.tax_rate) {
    if (typeof taxAmountData.tax_rate === 'string') {
      const taxRate = await stripe.taxRates.retrieve(taxAmountData.tax_rate);
      taxRatePercentage = taxRate.percentage || 0;
    } else {
      taxRatePercentage = taxAmountData.tax_rate.percentage || 0;
    }
  }
  \<close>
  The variable starts at 0 and keeps it when there is no tax rate.
\<close>

definition rate_percentage :: "(string \<Rightarrow> js_error + tax_rate) \<Rightarrow> tax_rate_ref option \<Rightarrow> js_error + rat" where
  "rate_percentage taxRates_retrieve r =
     (case r of
        None \<Rightarrow> Inr 0
      | Some (RateId i) \<Rightarrow>
          if i = [] then Inr 0
          else (case taxRates_retrieve i of
                  Inl e \<Rightarrow> Inl e
                | Inr taxRate \<Rightarrow> Inr (or0 (percentage taxRate)))
      | Some (RateObject taxRate) \<Rightarrow> Inr (or0 (percentage taxRate)))"

text \<open>\<open>invoice.lines?.data[0]?.tax_amounts || []\<close>\<close>

definition invoiceLineTaxAmounts :: "invoice \<Rightarrow> tax_amount list" where
  "invoiceLineTaxAmounts invc = (case lines invc of [] \<Rightarrow> [] | l # ls \<Rightarrow> tax_amounts l)"

text \<open>
  \<^verbatim>\<open>
  taxAmount = invoice.tax || 0;
  if (taxAmount === 0) {
    console.log(`[WEBHOOK] Reverse Charge detected - tax amount is 0`);
    taxRatePercentage = 0;
    subtotalAmount = invoice.total;
  } else {
    const invoiceLineTaxAmounts = invoice.lines?.data[0]?.tax_amounts || [];
    if (invoiceLineTaxAmounts.length > 0) {
      const taxAmountData = invoiceLineTaxAmounts[0];
      ... taxRatePercentage ...
      if (taxAmountData.inclusive && taxRatePercentage > 0) {
        const netInCentsFloat = (invoice.total * 100) / (100 + taxRatePercentage);
        subtotalAmount = Math.round(netInCentsFloat);
        console.log(`[WEBHOOK] Tax-inclusive: NET = ...`);
      } else {
        subtotalAmount = invoice.subtotal || 0;
      }
    } else {
      subtotalAmount = invoice.subtotal || 0;
    }
  }
  \<close>
\<close>

definition invoice_tax_data :: "(string \<Rightarrow> js_error + tax_rate) \<Rightarrow> invoice \<Rightarrow> js_error + tax_data" where
  "invoice_tax_data taxRates_retrieve invc =
     (let taxAmount' = or0 (tax invc) in
      if taxAmount' = 0
      then Inr \<lparr>taxAmount = taxAmount', taxRatePercentage = 0, subtotalAmount = total invc,
                logged = [ReverseChargeDetected]\<rparr>
      else (case invoiceLineTaxAmounts invc of
              [] \<Rightarrow> Inr \<lparr>taxAmount = taxAmount', taxRatePercentage = 0,
                          subtotalAmount = or0 (subtotal invc), logged = []\<rparr>
            | taxAmountData # rest \<Rightarrow>
                (case rate_percentage taxRates_retrieve (ta_tax_rate taxAmountData) of
                   Inl e \<Rightarrow> Inl e
                 | Inr pct \<Rightarrow>
                     if ta_inclusive taxAmountData \<and> pct > 0
                     then Inr \<lparr>taxAmount = taxAmount', taxRatePercentage = pct,
                               subtotalAmount =
                                 Math_round (js_div (js_mul (of_int (total invc)) 100) (js_add 100 pct)),
                               logged = [TaxInclusiveNet]\<rparr>
                     else Inr \<lparr>taxAmount = taxAmount', taxRatePercentage = pct,
                               subtotalAmount = or0 (subtotal invc), logged = []\<rparr>)))"

text \<open>
  The fallback for a session without invoice:
  \<^verbatim>\<open>
  } else {
    console.warn('[WEBHOOK] No invoice found - using session data (fallback). ...');
    taxAmount = fullSession.total_details?.amount_tax || 0;
    if (taxAmount === 0) {
      console.log(`[WEBHOOK] Reverse Charge detected - tax amount is 0`);
      taxRatePercentage = 0;
      subtotalAmount = fullSession.amount_total;
    } else {
      const lineItemTaxes = fullSession.line_items?.data[0]?.taxes || [];
      let isInclusive = false;
      if (lineItemTaxes.length > 0) {
        const taxData = lineItemTaxes[0];
        const taxRate = taxData.rate;
        taxRatePercentage = taxRate ? (taxRate.percentage || 0) : 0;
        isInclusive = taxRate ? (taxRate.inclusive || false) : false;
        if (isInclusive && taxRatePercentage > 0) {
          const netInCentsFloat = (fullSession.amount_total * 100) / (100 + taxRatePercentage);
          subtotalAmount = Math.round(netInCentsFloat);
        } else {
          subtotalAmount = fullSession.amount_total || 0;
        }
      } else {
        subtotalAmount = fullSession.amount_total || 0;
      }
    }
    console.log('[WEBHOOK] Session tax data:', {
      subtotal: subtotalAmount / 100,
      tax: taxAmount / 100,
      total: fullSession.amount_total / 100,
      taxRatePercentage: taxRatePercentage + '%',
      inclusive: isInclusive
    });
  }
  \<close>
  \<open>session_tax_variables\<close> is what the three variables hold, and what has been logged,
  when the last statement is reached. That statement reads \<open>isInclusive\<close> outside the
  block of its \<open>let\<close>, where no such variable exists: on every path it throws a
  \<open>ReferenceError\<close>, and the fallback ends without tax data.
\<close>

definition lineItemTaxes :: "checkout_session \<Rightarrow> line_item_tax list" where
  "lineItemTaxes fullSession = (case line_items fullSession of [] \<Rightarrow> [] | l # ls \<Rightarrow> taxes l)"

definition session_tax_variables :: "checkout_session \<Rightarrow> tax_data" where
  "session_tax_variables fullSession =
     (let taxAmount' = or0 (amount_tax fullSession) in
      if taxAmount' = 0
      then \<lparr>taxAmount = taxAmount', taxRatePercentage = 0,
            subtotalAmount = amount_total fullSession, logged = [ReverseChargeDetected]\<rparr>
      else (case lineItemTaxes fullSession of
              [] \<Rightarrow> \<lparr>taxAmount = taxAmount', taxRatePercentage = 0,
                      subtotalAmount = amount_total fullSession, logged = []\<rparr>
            | taxData # rest \<Rightarrow>
                (let pct = (case rate taxData of None \<Rightarrow> 0 | Some taxRate \<Rightarrow> or0 (percentage taxRate));
                     isInclusive = (case rate taxData of None \<Rightarrow> False | Some taxRate \<Rightarrow> inclusive taxRate)
                 in if isInclusive \<and> pct > 0
                    then \<lparr>taxAmount = taxAmount', taxRatePercentage = pct,
                          subtotalAmount =
                            Math_round (js_div (js_mul (of_int (amount_total fullSession)) 100)
                                          (js_add 100 pct)),
                          logged = [TaxInclusiveNet]\<rparr>
                    else \<lparr>taxAmount = taxAmount', taxRatePercentage = pct,
                          subtotalAmount = amount_total fullSession, logged = []\<rparr>)))"

definition session_tax_data :: "checkout_session \<Rightarrow> js_error + tax_data" where
  "session_tax_data fullSession =
     (case session_tax_variables fullSession of
        variables \<Rightarrow> Inl (ReferenceError ''isInclusive is not defined''))"

text \<open>
  The read-only calls to Stripe that the handler awaits; each may fail.
\<close>

record stripe_reads =
  sessions_retrieve :: "string \<Rightarrow> js_error + checkout_session"
  invoices_retrieve :: "string \<Rightarrow> js_error + invoice"
  taxRates_retrieve :: "string \<Rightarrow> js_error + tax_rate"

text \<open>
  \<^verbatim>\<open>
  if (fullSession.invoice) {
    let invoice;
    if (typeof fullSession.invoice === 'string') {
      invoice = await stripe.invoices.retrieve(fullSession.invoice, {...});
    } else {
      invoice = fullSession.invoice;
    }
    ...
  } else {
    ... fallback on the session ...
  }
  \<close>
\<close>

definition checkout_tax_data :: "stripe_reads \<Rightarrow> checkout_session \<Rightarrow> js_error + tax_data" where
  "checkout_tax_data stripe fullSession =
     (case invoice fullSession of
        None \<Rightarrow> session_tax_data fullSession
      | Some (InvoiceId i) \<Rightarrow>
          if i = [] then session_tax_data fullSession
          else (case invoices_retrieve stripe i of
                  Inl e \<Rightarrow> Inl e
                | Inr invc \<Rightarrow> invoice_tax_data (taxRates_retrieve stripe) invc)
      | Some (InvoiceObject invc) \<Rightarrow> invoice_tax_data (taxRates_retrieve stripe) invc)"

section \<open>server.js: the Zoho invoice\<close>

text \<open>
  The \<open>invoiceData\<close> object built by the webhook; its fields carry the prefix \<open>d_\<close>.
  Amounts are numbers in the main currency unit here (cents divided by 100).
\<close>

record invoice_data =
  d_amount :: rat
  d_subtotal :: rat
  d_taxAmount :: rat
  d_currency :: string
  d_customerEmail :: "string option"
  d_customerName :: "string option"
  d_country :: "string option"
  d_vatNumber :: "string option"
  d_taxExempt :: string
  d_taxRatePercentage :: rat
  d_paymentType :: string
  d_stripeSessionId :: string
  d_paymentIntentId :: "string option"
  d_isTestMode :: bool

text \<open>
  \<^verbatim>\<open>
  const TAX_IDS = {
    0: 'YOUR_ZOHO_TAX_ID_0_PERCENT',   // Tax 0%
    1: 'YOUR_ZOHO_TAX_ID_1_PERCENT',   // Tax 1%
    ...
    30: 'YOUR_ZOHO_TAX_ID_30_PERCENT', // Tax 30%
    // Add more if needed (31-40%)
  };
  \<close>
\<close>

definition TAX_IDS :: "(int \<times> string) list" where
  "TAX_IDS =
     [(0, ''YOUR_ZOHO_TAX_ID_0_PERCENT''),
      (1, ''YOUR_ZOHO_TAX_ID_1_PERCENT''),
      (2, ''YOUR_ZOHO_TAX_ID_2_PERCENT''),
      (3, ''YOUR_ZOHO_TAX_ID_3_PERCENT''),
      (4, ''YOUR_ZOHO_TAX_ID_4_PERCENT''),
      (5, ''YOUR_ZOHO_TAX_ID_5_PERCENT''),
      (6, ''YOUR_ZOHO_TAX_ID_6_PERCENT''),
      (7, ''YOUR_ZOHO_TAX_ID_7_PERCENT''),
      (8, ''YOUR_ZOHO_TAX_ID_8_PERCENT''),
      (9, ''YOUR_ZOHO_TAX_ID_9_PERCENT''),
      (10, ''YOUR_ZOHO_TAX_ID_10_PERCENT''),
      (11, ''YOUR_ZOHO_TAX_ID_11_PERCENT''),
      (12, ''YOUR_ZOHO_TAX_ID_12_PERCENT''),
      (13, ''YOUR_ZOHO_TAX_ID_13_PERCENT''),
      (14, ''YOUR_ZOHO_TAX_ID_14_PERCENT''),
      (15, ''YOUR_ZOHO_TAX_ID_15_PERCENT''),
      (16, ''YOUR_ZOHO_TAX_ID_16_PERCENT''),
      (17, ''YOUR_ZOHO_TAX_ID_17_PERCENT''),
      (18, ''YOUR_ZOHO_TAX_ID_18_PERCENT''),
      (19, ''YOUR_ZOHO_TAX_ID_19_PERCENT''),
      (20, ''YOUR_ZOHO_TAX_ID_20_PERCENT''),
      (21, ''YOUR_ZOHO_TAX_ID_21_PERCENT''),
      (22, ''YOUR_ZOHO_TAX_ID_22_PERCENT''),
      (23, ''YOUR_ZOHO_TAX_ID_23_PERCENT''),
      (24, ''YOUR_ZOHO_TAX_ID_24_PERCENT''),
      (25, ''YOUR_ZOHO_TAX_ID_25_PERCENT''),
      (26, ''YOUR_ZOHO_TAX_ID_26_PERCENT''),
      (27, ''YOUR_ZOHO_TAX_ID_27_PERCENT''),
      (28, ''YOUR_ZOHO_TAX_ID_28_PERCENT''),
      (29, ''YOUR_ZOHO_TAX_ID_29_PERCENT''),
      (30, ''YOUR_ZOHO_TAX_ID_30_PERCENT'')]"

text \<open>
  What \<open>createZohoInvoice\<close> throws inside its \<open>try\<close>, by origin: the access token, the
  customer (\<open>Customer lookup/creation failed: ...\<close>), the tax table
  (\<open>No tax mapping for R% (rounded: N%). Tax rates 0-40% supported.\<close>, with the rate and
  its rounding), or the request that creates the invoice.
\<close>

datatype zoho_error =
    TokenError string
  | CustomerFailed string
  | NoTaxMapping rat int
  | InvoiceRequestFailed string

record zoho_line_item =
  name :: string
  item_rate :: rat
  quantity :: nat
  tax_id :: string

record zoho_payload =
  customer_id :: string
  payload_items :: "zoho_line_item list"
  currency_code :: string
  is_inclusive_tax :: bool
  reference_number :: string

record zoho_invoice =
  invoice_number :: string
  invoice_id :: string
  invoice_customer_id :: string

text \<open>
  The calls to Zoho that \<open>createZohoInvoice\<close> awaits: each fails with a message or
  yields the access token, the customer id, and the number and id of the new invoice.
\<close>

record zoho_api =
  getZohoAccessToken :: "string + string"
  findOrCreateZohoCustomer :: "string + string"
  post_invoice :: "zoho_payload \<Rightarrow> string + (string \<times> string)"

text \<open>
  \<^verbatim>\<open>
  async function createZohoInvoice(invoiceData) {
    try {
      const accessToken = await getZohoAccessToken();
      const customerResult = await findOrCreateZohoCustomer({...});
      if (!customerResult.success) {
        throw new Error(`Customer lookup/creation failed: ${customerResult.error}`);
      }
      const customerId = customerResult.customer_id;
      const isSubscription = invoiceData.paymentType === 'subscription';
      const productName = isSubscription ? 'allgood.click suscripcion'
                                         : 'allgood.click servicio online';
      const TAX_IDS = {...};
      const taxRatePercentage = invoiceData.taxRatePercentage || 0;
      const roundedTax = Math.round(taxRatePercentage);
      const taxId = TAX_IDS[roundedTax];
      if (!taxId) {
        const errorMsg = `No tax mapping for ${taxRatePercentage}% (rounded: ${roundedTax}%). Tax rates 0-40% supported.`;
        throw new Error(errorMsg);
      }
      const netAmount = invoiceData.subtotal;
      const lineItem = { name: productName, description: '', rate: netAmount,
                         quantity: 1, tax_id: taxId };
      const orderType = isSubscription ? 'abo' : 'unico';
      const orderNumber = `allgood-${orderType}`;
      const invoicePayload = { customer_id: customerId, line_items: [lineItem],
        currency_code: invoiceData.currency.toUpperCase(), is_inclusive_tax: false,
        reference_number: orderNumber, notes: invoiceNotes };
      const response = await fetch(`${ZOHO_CONFIG.apiBaseUrl}/invoices`, {...});
      if (!response.ok) { throw new Error(`Zoho API error: ...`); }
      const result = await response.json();
      if (result.code === 0) {
        return { success: true, invoice_number: ..., invoice_id: ..., customer_id: customerId, ... };
      } else {
        throw new Error(`Zoho error: ${result.message}`);
      }
    } catch (error) {
      return { success: false, error: error.message };
    }
  }
  \<close>
  The result \<open>{success: false, error}\<close> is \<open>Inl\<close>, \<open>{success: true, ...}\<close> is \<open>Inr\<close>. The
  notes of the invoice (a text with the current date) are left out of the payload. On a
  number, \<open>|| 0\<close> changes nothing. The product name of a subscription ends in \<open>suscripci\<close>, the two bytes of o with acute
  accent, and \<open>n\<close>.
\<close>

definition productName :: "bool \<Rightarrow> string" where
  "productName isSubscription =
     (if isSubscription then ''allgood.click suscripci'' @ [CHR 0xC3, CHR 0xB3] @ ''n''
      else ''allgood.click servicio online'')"

definition createZohoInvoice :: "zoho_api \<Rightarrow> invoice_data \<Rightarrow> zoho_error + zoho_invoice" where
  "createZohoInvoice zoho invoiceData =
     (case getZohoAccessToken zoho of
        Inl e \<Rightarrow> Inl (TokenError e)
      | Inr accessToken \<Rightarrow>
          (case findOrCreateZohoCustomer zoho of
             Inl e \<Rightarrow> Inl (CustomerFailed e)
           | Inr customerId \<Rightarrow>
               (let isSubscription = (d_paymentType invoiceData = ''subscription'');
                    taxRatePercentage' = d_taxRatePercentage invoiceData;
                    roundedTax = Math_round taxRatePercentage'
                in case map_of TAX_IDS roundedTax of
                     None \<Rightarrow> Inl (NoTaxMapping taxRatePercentage' roundedTax)
                   | Some taxId \<Rightarrow>
                       if taxId = [] then Inl (NoTaxMapping taxRatePercentage' roundedTax)
                       else
                         (let lineItem = \<lparr>name = productName isSubscription,
                                          item_rate = d_subtotal invoiceData,
                                          quantity = 1, tax_id = taxId\<rparr>;
                              invoicePayload =
                                \<lparr>customer_id = customerId, payload_items = [lineItem],
                                 currency_code = toUpperCase (d_currency invoiceData),
                                 is_inclusive_tax = False,
                                 reference_number =
                                   ''allgood-'' @ (if isSubscription then ''abo'' else ''unico'')\<rparr>
                          in case post_invoice zoho invoicePayload of
                               Inl e \<Rightarrow> Inl (InvoiceRequestFailed e)
                             | Inr (num, iid) \<Rightarrow>
                                 Inr \<lparr>invoice_number = num, invoice_id = iid,
                                      invoice_customer_id = customerId\<rparr>))))"

text \<open>
  \<open>getZohoTaxId\<close> maps country, rate and VAT number to one of three identifiers and ends
  in a fallback. No function of \<open>server.js\<close> calls it; \<open>createZohoInvoice\<close> uses the
  table above.
  \<^verbatim>\<open>
  function getZohoTaxId(invoiceData) {
    const country = invoiceData.country?.toUpperCase();
    const taxRatePercentage = invoiceData.taxRatePercentage || 0;
    const hasVatId = !!invoiceData.vatNumber;
    if (country === 'ES' && taxRatePercentage === 21) return ZOHO_TAX_IDS.IVA_21;
    if (country === 'ES' && taxRatePercentage === 10) return ZOHO_TAX_IDS.IVA_10;
    if (isEUCountry(country) && country !== 'ES' && hasVatId) return ZOHO_TAX_IDS.EXENTO_0;
    if (isEUCountry(country) && country !== 'ES' && !hasVatId) {
      if (taxRatePercentage > 0) return ZOHO_TAX_IDS.IVA_21; // Fallback
      return ZOHO_TAX_IDS.EXENTO_0;
    }
    if (!isEUCountry(country)) return ZOHO_TAX_IDS.EXENTO_0;
    if (taxRatePercentage === 0) return ZOHO_TAX_IDS.EXENTO_0;
    return ZOHO_TAX_IDS.IVA_21;   // Fallback
  }
  \<close>
\<close>

datatype zoho_tax_id = IVA_21 | IVA_10 | EXENTO_0

definition EU_COUNTRIES :: "string list" where
  "EU_COUNTRIES =
     [''AT'', ''BE'', ''BG'', ''HR'', ''CY'', ''CZ'', ''DK'', ''EE'', ''FI'', ''FR'',
      ''DE'', ''GR'', ''HU'', ''IE'', ''IT'', ''LV'', ''LT'', ''LU'', ''MT'', ''NL'',
      ''PL'', ''PT'', ''RO'', ''SK'', ''SI'', ''ES'', ''SE'']"

definition isEUCountry :: "string option \<Rightarrow> bool" where
  "isEUCountry country' = (case country' of None \<Rightarrow> False | Some c \<Rightarrow> toUpperCase c \<in> set EU_COUNTRIES)"

definition getZohoTaxId :: "invoice_data \<Rightarrow> zoho_tax_id" where
  "getZohoTaxId invoiceData =
     (let country' = map_option toUpperCase (d_country invoiceData);
          taxRatePercentage' = d_taxRatePercentage invoiceData;
          hasVatId = \<not> falsy (d_vatNumber invoiceData)
      in if country' = Some ''ES'' \<and> taxRatePercentage' = 21 then IVA_21
         else if country' = Some ''ES'' \<and> taxRatePercentage' = 10 then IVA_10
         else if isEUCountry country' \<and> country' \<noteq> Some ''ES'' \<and> hasVatId then EXENTO_0
         else if isEUCountry country' \<and> country' \<noteq> Some ''ES'' \<and> \<not> hasVatId
         then (if taxRatePercentage' > 0 then IVA_21 else EXENTO_0)
         else if \<not> isEUCountry country' then EXENTO_0
         else if taxRatePercentage' = 0 then EXENTO_0
         else IVA_21)"

section \<open>server.js: the webhook\<close>

text \<open>
  A verified event, by type: the object of \<open>checkout.session.completed\<close> is a checkout
  session, that of the two payment intent events is reduced to its id, and any other
  type is not handled.
\<close>

datatype event_data =
    CheckoutSessionCompleted checkout_session
  | PaymentIntentSucceeded string
  | PaymentIntentPaymentFailed string
  | Unhandled string

record event =
  livemode :: bool
  payload :: event_data

text \<open>The request: the raw body and the header \<open>stripe-signature\<close>.\<close>

record webhook_request =
  raw_body :: string
  stripe_signature :: "string option"

text \<open>
  What the handler does to the outside world, in order: the mails it sends and the calls
  that fetch the session and drive Zoho. Console output is not listed.
\<close>

datatype effect =
    SendPaymentNotification string bool
  | RetrieveSession string
  | CreateZohoInvoice invoice_data
  | SendZohoInvoiceEmail string
  | RecordZohoPayment string
  | SendZohoOKEmail string
  | SendZohoErrorEmail zoho_error

datatype response_body = Send string | Json_received

record response =
  status :: nat
  body :: response_body

text \<open>
  \<^verbatim>\<open>
  const country = fullSession.customer_details?.address?.country || null;
  const taxIds = fullSession.customer_details?.tax_ids || [];
  const vatNumber = taxIds.length > 0 ? taxIds[0].value : null;
  const taxExempt = fullSession.customer_details?.tax_exempt || 'none';
  const invoiceData = {
    amount: fullSession.amount_total / 100,
    subtotal: subtotalAmount / 100,
    taxAmount: taxAmount / 100,
    currency: fullSession.currency,
    ...
    country: country, vatNumber: vatNumber, taxExempt: taxExempt,
    taxRatePercentage: taxRatePercentage,
    paymentType: fullSession.mode,
    stripeSessionId: fullSession.id,
    paymentIntentId: fullSession.payment_intent,
    isTestMode: !event.livemode
  };
  \<close>
\<close>

definition invoiceData_of :: "bool \<Rightarrow> checkout_session \<Rightarrow> tax_data \<Rightarrow> invoice_data" where
  "invoiceData_of live fullSession td =
     \<lparr>d_amount = js_div (of_int (amount_total fullSession)) 100,
      d_subtotal = js_div (of_int (subtotalAmount td)) 100,
      d_taxAmount = js_div (of_int (taxAmount td)) 100,
      d_currency = currency fullSession,
      d_customerEmail = or_else (details_email fullSession) (customer_email fullSession),
      d_customerName = or_else (details_name fullSession) None,
      d_country = or_else (details_country fullSession) None,
      d_vatNumber = (case tax_ids fullSession of [] \<Rightarrow> None | v # vs \<Rightarrow> Some v),
      d_taxExempt = or_default (tax_exempt fullSession) ''none'',
      d_taxRatePercentage = taxRatePercentage td,
      d_paymentType = mode fullSession,
      d_stripeSessionId = session_id fullSession,
      d_paymentIntentId = payment_intent fullSession,
      d_isTestMode = (\<not> live)\<rparr>"

text \<open>
  The case \<open>checkout.session.completed\<close>: the notification mail, then, inside a \<open>try\<close>
  whose \<open>catch\<close> only logs, the full session, the tax data and, if \<open>ZOHO_ENABLED\<close>, the
  invoice with its mails and payment, or the error mail when the invoice failed. An error
  on the way to the tax data, the \<open>ReferenceError\<close> of the session fallback included, ends
  in that \<open>catch\<close>, before anything is sent to Zoho.
\<close>

definition zoho_effects :: "zoho_api \<Rightarrow> invoice_data \<Rightarrow> effect list" where
  "zoho_effects zoho invoiceData =
     CreateZohoInvoice invoiceData #
     (case createZohoInvoice zoho invoiceData of
        Inr invoiceResult \<Rightarrow>
          [SendZohoInvoiceEmail (invoice_id invoiceResult),
           RecordZohoPayment (invoice_id invoiceResult),
           SendZohoOKEmail (invoice_number invoiceResult)]
      | Inl e \<Rightarrow> [SendZohoErrorEmail e])"

definition checkout_completed ::
  "stripe_reads \<Rightarrow> zoho_api \<Rightarrow> bool \<Rightarrow> bool \<Rightarrow> checkout_session \<Rightarrow> effect list" where
  "checkout_completed stripe zoho ZOHO_ENABLED live session =
     SendPaymentNotification ''success'' (\<not> live) #
     RetrieveSession (session_id session) #
     (case sessions_retrieve stripe (session_id session) of
        Inl e \<Rightarrow> []
      | Inr fullSession \<Rightarrow>
          (case checkout_tax_data stripe fullSession of
             Inl e \<Rightarrow> []
           | Inr td \<Rightarrow>
               if ZOHO_ENABLED then zoho_effects zoho (invoiceData_of live fullSession td)
               else []))"

text \<open>
  \<^verbatim>\<open>
  app.post('/webhook', async (req, res) => {
    const sig = req.headers['stripe-signature'];
    let event;
    try {
      event = stripe.webhooks.constructEvent(req.body, sig, STRIPE_WEBHOOK_SECRET);
    } catch (err) {
      console.error('[WEBHOOK] Signature verification failed:', err.message);
      return res.status(400).send(`Webhook Error: ${err.message}`);
    }
    switch (event.type) {
      case 'checkout.session.completed': ... break;
      case 'payment_intent.succeeded': ... break;
      case 'payment_intent.payment_failed':
        ... await sendPaymentNotification('error', {...}, isTestModeFailed); break;
      default: console.log(`Unhandled event type ${event.type}`);
    }
    res.json({ received: true });
  });
  \<close>
  \<open>constructEvent\<close> checks the signature of the raw body against the secret: it throws
  with a message or yields the event.
\<close>

definition webhook ::
  "(string \<Rightarrow> string option \<Rightarrow> string + event) \<Rightarrow> stripe_reads \<Rightarrow> zoho_api \<Rightarrow> bool \<Rightarrow>
   webhook_request \<Rightarrow> response \<times> effect list" where
  "webhook constructEvent stripe zoho ZOHO_ENABLED req =
     (case constructEvent (raw_body req) (stripe_signature req) of
        Inl message \<Rightarrow> (\<lparr>status = 400, body = Send (''Webhook Error: '' @ message)\<rparr>, [])
      | Inr ev \<Rightarrow>
          (\<lparr>status = 200, body = Json_received\<rparr>,
           (case payload ev of
              CheckoutSessionCompleted session \<Rightarrow>
                checkout_completed stripe zoho ZOHO_ENABLED (livemode ev) session
            | PaymentIntentSucceeded paymentIntent \<Rightarrow> []
            | PaymentIntentPaymentFailed failedPayment \<Rightarrow> [SendPaymentNotification ''error'' (\<not> livemode ev)]
            | Unhandled t \<Rightarrow> [])))"

section \<open>Properties of the string helpers\<close>

lemma split_on_not_Nil: "split_on c s \<noteq> []"
  by (induction s) (auto split: list.splits)

lemma length_split_on: "length (split_on c s) = Suc (length (filter (\<lambda>x. x = c) s))"
  by (induction s) (auto split: list.splits simp: split_on_not_Nil)

lemma split_on_free: "p \<in> set (split_on c s) \<Longrightarrow> c \<notin> set p"
  by (induction s arbitrary: p) (auto split: list.splits if_splits)

lemma split_on_no_sep: "c \<notin> set p \<Longrightarrow> split_on c p = [p]"
  by (induction p) auto

lemma split_on_append_sep: "c \<notin> set p \<Longrightarrow> split_on c (p @ c # s) = p # split_on c s"
  by (induction p) auto

lemma join_with_Cons: "ps \<noteq> [] \<Longrightarrow> join_with c (p # ps) = p @ c # join_with c ps"
  by (cases ps) auto

lemma split_on_join_with:
  "ps \<noteq> [] \<Longrightarrow> \<forall>p \<in> set ps. c \<notin> set p \<Longrightarrow> split_on c (join_with c ps) = ps"
proof (induction ps rule: join_with.induct)
  case (1 c)
  then show ?case by simp
next
  case (2 c p)
  then show ?case by (simp add: split_on_no_sep)
next
  case (3 c p q ps)
  then show ?case by (simp add: split_on_append_sep)
qed

lemma join_with_split_on: "join_with c (split_on c s) = s"
proof (induction s)
  case Nil
  then show ?case by simp
next
  case (Cons x xs)
  show ?case
  proof (cases "x = c")
    case True
    then show ?thesis using Cons split_on_not_Nil [of c xs] by (simp add: join_with_Cons)
  next
    case False
    then show ?thesis using Cons split_on_not_Nil [of c xs]
      by (cases "split_on c xs"; cases "tl (split_on c xs)") auto
  qed
qed

section \<open>Properties of the IP anonymisation\<close>

lemma case_quad:
  "(case xs of [p0, p1, p2, p3] \<Rightarrow> f p0 p1 p2 p3 | _ \<Rightarrow> g) =
     (if length xs = 4 then f (xs ! 0) (xs ! 1) (xs ! 2) (xs ! 3) else g)"
  by (auto split: list.splits)

lemma anonymizeIP_Some:
  "anonymizeIP (Some s) =
     (if s = [] then ''unknown''
      else if length (split_on CHR ''.'' s) = 4
      then split_on CHR ''.'' s ! 0 @ ''.'' @ split_on CHR ''.'' s ! 1 @ ''.'' @
           split_on CHR ''.'' s ! 2 @ ''.xxx''
      else if length (split_on CHR '':'' s) > 3
      then join_with CHR '':'' (take 3 (split_on CHR '':'' s)) @ ''::xxx''
      else ''unknown'')"
  by (simp add: anonymizeIP_def case_quad Let_def)


lemma split_on_nth_free: "i < length (split_on c s) \<Longrightarrow> c \<notin> set (split_on c s ! i)"
  using split_on_free nth_mem by blast

lemma anonymizeIP_quad:
  assumes "CHR ''.'' \<notin> set a" "CHR ''.'' \<notin> set b" "CHR ''.'' \<notin> set c" "CHR ''.'' \<notin> set d"
  shows "anonymizeIP (Some (a @ ''.'' @ b @ ''.'' @ c @ ''.'' @ d)) = a @ ''.'' @ b @ ''.'' @ c @ ''.xxx''"
proof -
  have "split_on CHR ''.'' (a @ ''.'' @ b @ ''.'' @ c @ ''.'' @ d) = [a, b, c, d]"
    using assms by (simp add: split_on_append_sep split_on_no_sep)
  then show ?thesis by (simp add: anonymizeIP_Some)
qed

lemma anonymizeIP_dotted:
  assumes "length (split_on CHR ''.'' s) = 4"
  shows "anonymizeIP (Some (anonymizeIP (Some s))) = anonymizeIP (Some s)"
proof -
  let ?ps = "split_on CHR ''.'' s"
  have ne: "s \<noteq> []" using assms by auto
  have free: "CHR ''.'' \<notin> set (?ps ! 0)" "CHR ''.'' \<notin> set (?ps ! 1)" "CHR ''.'' \<notin> set (?ps ! 2)"
    using assms by (simp_all add: split_on_nth_free)
  have out: "anonymizeIP (Some s) = ?ps ! 0 @ ''.'' @ ?ps ! 1 @ ''.'' @ ?ps ! 2 @ ''.'' @ ''xxx''"
    using assms ne by (simp add: anonymizeIP_Some)
  show ?thesis
    unfolding out using free by (subst anonymizeIP_quad) simp_all
qed

lemma xxx_suffix_differs: "J @ ''::xxx'' \<noteq> X @ ''.xxx''"
proof
  assume "J @ ''::xxx'' = X @ ''.xxx''"
  then have "(J @ '':'') @ '':xxx'' = X @ ''.xxx''" by simp
  then have "'':xxx'' = ''.xxx''" by (subst (asm) append_eq_append_conv) simp_all
  then show False by simp
qed

lemma anonymizeIP_v6_out:
  assumes "length (split_on CHR ''.'' s) \<noteq> 4" "length (split_on CHR '':'' s) > 3"
  shows "anonymizeIP (Some s) = join_with CHR '':'' (take 3 (split_on CHR '':'' s)) @ ''::xxx''"
proof -
  have "s \<noteq> []" using assms(2) by auto
  then show ?thesis using assms by (simp add: anonymizeIP_Some)
qed

lemma anonymizeIP_collapsed:
  assumes "length ps = 3" "\<forall>p \<in> set ps. CHR '':'' \<notin> set p"
  shows "anonymizeIP (Some (join_with CHR '':'' ps @ ''::xxx'')) =
           (if length (split_on CHR ''.'' (join_with CHR '':'' ps)) = 4
            then split_on CHR ''.'' (join_with CHR '':'' ps @ ''::xxx'') ! 0 @ ''.'' @
                 split_on CHR ''.'' (join_with CHR '':'' ps @ ''::xxx'') ! 1 @ ''.'' @
                 split_on CHR ''.'' (join_with CHR '':'' ps @ ''::xxx'') ! 2 @ ''.xxx''
            else join_with CHR '':'' ps @ ''::xxx'')"
proof -
  let ?out = "join_with CHR '':'' ps @ ''::xxx''"
  obtain p0 p1 p2 where ps: "ps = [p0, p1, p2]"
    using assms(1) by (auto simp: length_Suc_conv numeral_3_eq_3)
  have join: "?out = join_with CHR '':'' (ps @ [[], ''xxx''])"
    by (simp add: ps)
  have "split_on CHR '':'' ?out = ps @ [[], ''xxx'']"
    unfolding join using assms(2) by (subst split_on_join_with) (auto simp: ps)
  then have colon: "length (split_on CHR '':'' ?out) > 3" "take 3 (split_on CHR '':'' ?out) = ps"
    using assms(1) by simp_all
  have dots: "length (split_on CHR ''.'' ?out) = length (split_on CHR ''.'' (join_with CHR '':'' ps))"
    by (simp add: length_split_on)
  have "?out \<noteq> []" by simp
  then show ?thesis
    using colon dots by (simp add: anonymizeIP_Some del: split_on.simps join_with.simps)
qed

lemma anonymizeIP_idem_iff:
  "anonymizeIP (Some (anonymizeIP addr)) = anonymizeIP addr \<longleftrightarrow>
     \<not> (\<exists>s. addr = Some s \<and> length (split_on CHR ''.'' s) \<noteq> 4 \<and> length (split_on CHR '':'' s) > 3 \<and>
          length (split_on CHR ''.'' (join_with CHR '':'' (take 3 (split_on CHR '':'' s)))) = 4)"
proof (cases addr)
  case None
  then show ?thesis by (simp add: anonymizeIP_def)
next
  case (Some s)
  have unk: "anonymizeIP (Some ''unknown'') = ''unknown''" by (simp add: anonymizeIP_def)
  consider (empty) "s = []" | (quad) "length (split_on CHR ''.'' s) = 4"
    | (v6) "s \<noteq> []" "length (split_on CHR ''.'' s) \<noteq> 4" "length (split_on CHR '':'' s) > 3"
    | (other) "s \<noteq> []" "length (split_on CHR ''.'' s) \<noteq> 4" "\<not> length (split_on CHR '':'' s) > 3"
    by blast
  then show ?thesis
  proof cases
    case empty
    then show ?thesis using Some unk by (simp add: anonymizeIP_Some)
  next
    case quad
    then show ?thesis using Some anonymizeIP_dotted [OF quad] by simp
  next
    case v6
    let ?ps = "take 3 (split_on CHR '':'' s)"
    have len: "length ?ps = 3" using v6(3) by simp
    have free: "\<forall>p \<in> set ?ps. CHR '':'' \<notin> set p"
      by (meson in_set_takeD split_on_free)
    have out: "anonymizeIP (Some s) = join_with CHR '':'' ?ps @ ''::xxx''"
      using v6 by (rule_tac anonymizeIP_v6_out)
    show ?thesis
      unfolding Some out anonymizeIP_collapsed [OF len free]
      using v6 xxx_suffix_differs by auto
  next
    case other
    then show ?thesis using Some unk by (simp add: anonymizeIP_Some)
  qed
qed


lemma join_with_no_sep: "\<forall>p \<in> set ps. c \<notin> set p \<and> d \<notin> set p \<Longrightarrow> c \<noteq> d \<Longrightarrow> d \<notin> set (join_with c ps)"
  by (induction c ps rule: join_with.induct) auto

lemma join_with_long_not_Nil: "1 < length ps \<Longrightarrow> join_with c ps \<noteq> []"
  by (cases ps; cases "tl ps") auto

lemma anonymizeIP_hextets:
  assumes free: "\<forall>p \<in> set ps. CHR ''.'' \<notin> set p \<and> CHR '':'' \<notin> set p" and len: "3 < length ps"
  shows "anonymizeIP (Some (join_with CHR '':'' ps)) = join_with CHR '':'' (take 3 ps) @ ''::xxx''"
proof -
  let ?s = "join_with CHR '':'' ps"
  have ne: "ps \<noteq> []" using len by auto
  have "CHR ''.'' \<notin> set ?s"
    using free by (intro join_with_no_sep) auto
  then have dots: "length (split_on CHR ''.'' ?s) \<noteq> 4"
    by (simp add: split_on_no_sep)
  have colons: "split_on CHR '':'' ?s = ps"
    using ne free by (intro split_on_join_with) auto
  show ?thesis
    using anonymizeIP_v6_out [OF dots] len colons by simp
qed

lemma anonymizeIP_shape:
  "anonymizeIP (Some s) = ''unknown'' \<or> (\<exists>u. anonymizeIP (Some s) = u @ ''.xxx'') \<or>
   (\<exists>u. anonymizeIP (Some s) = u @ ''::xxx'')"
proof -
  have "\<exists>u. p0 @ ''.'' @ p1 @ ''.'' @ p2 @ ''.xxx'' = u @ ''.xxx''" for p0 p1 p2 :: string
    by (rule exI [of _ "p0 @ ''.'' @ p1 @ ''.'' @ p2"]) simp
  then show ?thesis unfolding anonymizeIP_Some by auto
qed

text \<open>
  Claim C6, as amended. \<open>anonymizeIP\<close> maps \<open>203.0.113.42\<close> to \<open>203.0.113.xxx\<close>. An
  input of four dot-separated parts keeps the first three, followed by \<open>xxx\<close>. Any other
  input with more than three colon-separated parts is collapsed to the first three,
  followed by \<open>::xxx\<close>. The result is a function of the input alone. Applying the function
  to its own result changes nothing, except for the inputs that are no dotted quad, have
  more than three colon-separated parts, and whose first three colon-separated parts
  together hold exactly three dots; so it is idempotent on every dotted quad and on every
  input without a dot.
\<close>

theorem anonymizeIP_spec:
  "anonymizeIP (Some ''203.0.113.42'') = ''203.0.113.xxx'' \<and>
   (CHR ''.'' \<notin> set a \<and> CHR ''.'' \<notin> set b \<and> CHR ''.'' \<notin> set c \<and> CHR ''.'' \<notin> set d \<longrightarrow>
      anonymizeIP (Some (a @ ''.'' @ b @ ''.'' @ c @ ''.'' @ d)) = a @ ''.'' @ b @ ''.'' @ c @ ''.xxx'') \<and>
   (length (split_on CHR ''.'' s) \<noteq> 4 \<and> 3 < length (split_on CHR '':'' s) \<longrightarrow>
      anonymizeIP (Some s) = join_with CHR '':'' (take 3 (split_on CHR '':'' s)) @ ''::xxx'') \<and>
   (anonymizeIP (Some (anonymizeIP addr)) = anonymizeIP addr \<longleftrightarrow>
      \<not> (\<exists>t. addr = Some t \<and> length (split_on CHR ''.'' t) \<noteq> 4 \<and> 3 < length (split_on CHR '':'' t) \<and>
           length (split_on CHR ''.'' (join_with CHR '':'' (take 3 (split_on CHR '':'' t)))) = 4))"
proof (intro conjI impI)
  show "anonymizeIP (Some ''203.0.113.42'') = ''203.0.113.xxx''"
    by (simp add: anonymizeIP_def)
next
  assume "CHR ''.'' \<notin> set a \<and> CHR ''.'' \<notin> set b \<and> CHR ''.'' \<notin> set c \<and> CHR ''.'' \<notin> set d"
  then show "anonymizeIP (Some (a @ ''.'' @ b @ ''.'' @ c @ ''.'' @ d)) = a @ ''.'' @ b @ ''.'' @ c @ ''.xxx''"
    using anonymizeIP_quad [of a b c d] by blast
next
  assume "length (split_on CHR ''.'' s) \<noteq> 4 \<and> 3 < length (split_on CHR '':'' s)"
  then show "anonymizeIP (Some s) = join_with CHR '':'' (take 3 (split_on CHR '':'' s)) @ ''::xxx''"
    by (simp add: anonymizeIP_v6_out)
next
  show "anonymizeIP (Some (anonymizeIP addr)) = anonymizeIP addr \<longleftrightarrow>
      \<not> (\<exists>t. addr = Some t \<and> length (split_on CHR ''.'' t) \<noteq> 4 \<and> 3 < length (split_on CHR '':'' t) \<and>
           length (split_on CHR ''.'' (join_with CHR '':'' (take 3 (split_on CHR '':'' t)))) = 4)"
    by (rule anonymizeIP_idem_iff)
qed

text \<open>
  The theorem of C6 at an IPv4 address and at an IPv6 address of eight groups.
\<close>

theorem anonymizeIP_spec_witness:
  "anonymizeIP (Some (''198'' @ ''.'' @ ''51'' @ ''.'' @ ''100'' @ ''.'' @ ''7'')) = ''198.51.100.xxx'' \<and>
   anonymizeIP (Some ''2001:db8:85a3:0:0:8a2e:370:7334'') = ''2001:db8:85a3::xxx'' \<and>
   anonymizeIP (Some (anonymizeIP (Some ''2001:db8:85a3:0:0:8a2e:370:7334''))) =
     anonymizeIP (Some ''2001:db8:85a3:0:0:8a2e:370:7334'')"
proof -
  note spec = anonymizeIP_spec [of "''198''" "''51''" "''100''" "''7''"
      "''2001:db8:85a3:0:0:8a2e:370:7334''" "Some ''2001:db8:85a3:0:0:8a2e:370:7334''"]
  have quad: "CHR ''.'' \<notin> set ''198'' \<and> CHR ''.'' \<notin> set ''51'' \<and> CHR ''.'' \<notin> set ''100'' \<and> CHR ''.'' \<notin> set ''7''"
    by simp
  have v6: "length (split_on CHR ''.'' ''2001:db8:85a3:0:0:8a2e:370:7334'') \<noteq> 4 \<and>
            3 < length (split_on CHR '':'' ''2001:db8:85a3:0:0:8a2e:370:7334'')"
    by simp
  have nodots: "length (split_on CHR ''.'' (join_with CHR '':''
                  (take 3 (split_on CHR '':'' ''2001:db8:85a3:0:0:8a2e:370:7334'')))) \<noteq> 4"
    by simp
  from spec quad have 1: "anonymizeIP (Some (''198'' @ ''.'' @ ''51'' @ ''.'' @ ''100'' @ ''.'' @ ''7'')) = ''198.51.100.xxx''"
    by simp
  from spec v6 have 2: "anonymizeIP (Some ''2001:db8:85a3:0:0:8a2e:370:7334'') = ''2001:db8:85a3::xxx''"
    by simp
  from spec nodots have 3: "anonymizeIP (Some (anonymizeIP (Some ''2001:db8:85a3:0:0:8a2e:370:7334''))) =
     anonymizeIP (Some ''2001:db8:85a3:0:0:8a2e:370:7334'')"
    by blast
  from 1 2 3 show ?thesis by blast
qed

text \<open>
  Claim C6 as stated fails: idempotence does not hold for every string. The input
  \<open>1.2:3.4:5.6:7.8\<close> has five dot-separated and four colon-separated parts, so it is
  collapsed to \<open>1.2:3.4:5.6::xxx\<close>, which has four dot-separated parts and is then
  cut to \<open>1.2:3.4:5.xxx\<close>.
\<close>

theorem anonymizeIP_not_idempotent:
  "anonymizeIP (Some ''1.2:3.4:5.6:7.8'') = ''1.2:3.4:5.6::xxx'' \<and>
   anonymizeIP (Some ''1.2:3.4:5.6::xxx'') = ''1.2:3.4:5.xxx'' \<and>
   anonymizeIP (Some (anonymizeIP (Some ''1.2:3.4:5.6:7.8''))) \<noteq> anonymizeIP (Some ''1.2:3.4:5.6:7.8'')"
  by (simp add: anonymizeIP_def)

text \<open>
  Claim C10 as stated fails for an IPv6 address that ends in a dotted quad: it has four
  dot-separated parts, so only what follows its last dot is replaced, and the groups past
  the third stay in the result.
\<close>

theorem anonymizeIP_keeps_groups:
  "anonymizeIP (Some ''2001:db8:1:1111:2222:3333:192.0.2.33'') =
     ''2001:db8:1:1111:2222:3333:192.0.2.xxx'' \<and>
   anonymizeIP (Some ''::ffff:203.0.113.42'') = ''::ffff:203.0.113.xxx'' \<and>
   anonymizeIP (Some ''::ffff:198.51.100.7'') = ''::ffff:198.51.100.xxx'' \<and>
   take 3 (split_on CHR '':'' ''::ffff:203.0.113.42'') =
     take 3 (split_on CHR '':'' ''::ffff:198.51.100.7'') \<and>
   anonymizeIP (Some ''::ffff:203.0.113.42'') \<noteq> anonymizeIP (Some ''::ffff:198.51.100.7'')"
  by (simp add: anonymizeIP_def)

lemma anonymizeIP_split_quad:
  assumes "split_on CHR ''.'' s = [a, b, c, d]"
  shows "anonymizeIP (Some s) = a @ ''.'' @ b @ ''.'' @ c @ ''.xxx''"
proof -
  have "s \<noteq> []" using assms by auto
  then show ?thesis using assms by (simp add: anonymizeIP_Some)
qed

text \<open>
  Claim C10, as amended. The result of \<open>anonymizeIP\<close> is \<open>unknown\<close> or ends in \<open>xxx\<close>. The last
  part of an input of four dot-separated parts does not reach the result: two such
  inputs that agree on their first three parts have the same result. Nor does any group
  after the third of an input that has more than three colon-separated groups and is
  not of four dot-separated parts: two such inputs that agree on their first three
  groups have the same result.
\<close>

theorem anonymizeIP_hides_tail:
  "(anonymizeIP addr = ''unknown'' \<or> suffix ''xxx'' (anonymizeIP addr)) \<and>
   (split_on CHR ''.'' s = [a, b, c, d] \<and> split_on CHR ''.'' s' = [a, b, c, d'] \<longrightarrow>
      anonymizeIP (Some s) = anonymizeIP (Some s')) \<and>
   (length (split_on CHR ''.'' s) \<noteq> 4 \<and> length (split_on CHR ''.'' s') \<noteq> 4 \<and>
    3 < length (split_on CHR '':'' s) \<and> 3 < length (split_on CHR '':'' s') \<and>
    take 3 (split_on CHR '':'' s) = take 3 (split_on CHR '':'' s') \<longrightarrow>
      anonymizeIP (Some s) = anonymizeIP (Some s'))"
proof (intro conjI impI)
  show "anonymizeIP addr = ''unknown'' \<or> suffix ''xxx'' (anonymizeIP addr)"
  proof (cases addr)
    case None
    then show ?thesis by (simp add: anonymizeIP_def)
  next
    case (Some t)
    from anonymizeIP_shape [of t] show ?thesis
    proof (elim disjE exE)
      fix u assume "anonymizeIP (Some t) = u @ ''.xxx''"
      then have "anonymizeIP (Some t) = (u @ ''.'') @ ''xxx''" by simp
      then show ?thesis unfolding Some by (intro disjI2 suffixI)
    next
      fix u assume "anonymizeIP (Some t) = u @ ''::xxx''"
      then have "anonymizeIP (Some t) = (u @ ''::'') @ ''xxx''" by simp
      then show ?thesis unfolding Some by (intro disjI2 suffixI)
    qed (simp add: Some)
  qed
next
  assume "split_on CHR ''.'' s = [a, b, c, d] \<and> split_on CHR ''.'' s' = [a, b, c, d']"
  then show "anonymizeIP (Some s) = anonymizeIP (Some s')"
    using anonymizeIP_split_quad [of s a b c d] anonymizeIP_split_quad [of s' a b c d']
    by presburger
next
  assume h: "length (split_on CHR ''.'' s) \<noteq> 4 \<and> length (split_on CHR ''.'' s') \<noteq> 4 \<and>
    3 < length (split_on CHR '':'' s) \<and> 3 < length (split_on CHR '':'' s') \<and>
    take 3 (split_on CHR '':'' s) = take 3 (split_on CHR '':'' s')"
  then have "anonymizeIP (Some s) = join_with CHR '':'' (take 3 (split_on CHR '':'' s)) @ ''::xxx''"
    "anonymizeIP (Some s') = join_with CHR '':'' (take 3 (split_on CHR '':'' s')) @ ''::xxx''"
    by (simp_all add: anonymizeIP_v6_out)
  with h show "anonymizeIP (Some s) = anonymizeIP (Some s')"
    by simp
qed

text \<open>
  The theorem of C10 at two dotted quads that differ in the last part and at two IPv6
  addresses that differ after the third group.
\<close>

theorem anonymizeIP_hides_tail_witness:
  "anonymizeIP (Some ''203.0.113.42'') = anonymizeIP (Some ''203.0.113.7'') \<and>
   anonymizeIP (Some ''2001:db8:85a3:0:1'') = anonymizeIP (Some ''2001:db8:85a3:ffff:2:3'')"
proof -
  note th = anonymizeIP_hides_tail [of _ "''203.0.113.42''" "''203''" "''0''" "''113''" "''42''"
      "''203.0.113.7''" "''7''"]
  note th' = anonymizeIP_hides_tail [of _ "''2001:db8:85a3:0:1''" _ _ _ _ "''2001:db8:85a3:ffff:2:3''"]
  have quad: "split_on CHR ''.'' ''203.0.113.42'' = [''203'', ''0'', ''113'', ''42''] \<and>
              split_on CHR ''.'' ''203.0.113.7'' = [''203'', ''0'', ''113'', ''7'']"
    by simp
  have hex: "length (split_on CHR ''.'' ''2001:db8:85a3:0:1'') \<noteq> 4 \<and>
             length (split_on CHR ''.'' ''2001:db8:85a3:ffff:2:3'') \<noteq> 4 \<and>
             3 < length (split_on CHR '':'' ''2001:db8:85a3:0:1'') \<and>
             3 < length (split_on CHR '':'' ''2001:db8:85a3:ffff:2:3'') \<and>
             take 3 (split_on CHR '':'' ''2001:db8:85a3:0:1'') =
               take 3 (split_on CHR '':'' ''2001:db8:85a3:ffff:2:3'')"
    by simp
  from th quad have 1: "anonymizeIP (Some ''203.0.113.42'') = anonymizeIP (Some ''203.0.113.7'')"
    by blast
  from th' hex have 2: "anonymizeIP (Some ''2001:db8:85a3:0:1'') = anonymizeIP (Some ''2001:db8:85a3:ffff:2:3'')"
    by blast
  from 1 2 show ?thesis by blast
qed

section \<open>Properties of the classifiers\<close>

lemma test_i_infix:
  assumes "map lower_ascii g = map lower_ascii pat"
  shows "test_i pat (pre @ g @ post)"
  unfolding test_i_def using assms by (simp del: sublist_code)

text \<open>
  Claim C7. \<open>isBot\<close> is true of every user agent that contains \<open>Googlebot\<close> in any casing of
  its letters, whatever text stands before and after it.
\<close>

theorem isBot_googlebot:
  assumes "map lower_ascii g = ''googlebot''"
  shows "isBot (Some (pre @ g @ post))"
proof -
  have low: "map lower_ascii ''googlebot'' = ''googlebot''"
    by (simp add: lower_ascii_def)
  have "g \<noteq> []" using assms by auto
  then have ne: "pre @ g @ post \<noteq> []" by simp
  have "test_i ''googlebot'' (pre @ g @ post)"
    using assms low by (intro test_i_infix) simp
  moreover have "''googlebot'' \<in> set botPatterns" by (simp add: botPatterns_def)
  ultimately have "list_ex (\<lambda>pattern. test_i pattern (pre @ g @ post)) botPatterns"
    unfolding list_ex_iff by blast
  then show ?thesis using ne by (simp add: isBot_def)
qed

text \<open>The theorem of C7 at a user agent of Google's crawler, written with a capital B.\<close>

theorem isBot_googlebot_witness:
  "isBot (Some (''Mozilla/5.0 (compatible; '' @ ''GoogleBot'' @ ''/2.1; +http://www.google.com/bot.html)''))"
proof -
  have "map lower_ascii ''GoogleBot'' = ''googlebot''"
    by (simp add: lower_ascii_def char_of_def)
  then show ?thesis by (rule isBot_googlebot)
qed

lemma first_match_default: "\<forall>(p, v) \<in> set rules. \<not> p s \<Longrightarrow> first_match rules dflt s = dflt"
  by (induction rules) auto

lemma detectBrowser_rules: "s \<noteq> [] \<Longrightarrow> detectBrowser (Some s) = first_match browser_rules ''Other'' s"
  by (simp add: detectBrowser_def browser_rules_def)

lemma detectOS_rules: "s \<noteq> [] \<Longrightarrow> detectOS (Some s) = first_match os_rules ''Other'' s"
  by (simp add: detectOS_def os_rules_def)

lemma detectDevice_rules: "s \<noteq> [] \<Longrightarrow> detectDevice (Some s) = first_match device_rules ''desktop'' s"
  by (simp add: detectDevice_def device_rules_def)

lemma detectBrowser_cases:
  "detectBrowser x \<in> {''Unknown'', ''Edge'', ''Opera'', ''Chrome'', ''Safari'', ''Firefox'', ''IE'', ''Other''}"
  by (simp add: detectBrowser_def split: option.split)

lemma detectOS_cases:
  "detectOS x \<in> {''Unknown'', ''Windows 10/11'', ''Windows'', ''macOS'', ''iOS'', ''iPadOS'',
                  ''Android'', ''Linux'', ''ChromeOS'', ''Other''}"
  by (simp add: detectOS_def split: option.split)

lemma detectDevice_cases:
  "detectDevice x \<in> {''unknown'', ''mobile'', ''tablet'', ''desktop''}"
  by (simp add: detectDevice_def split: option.split)

lemma classifiers_falsy:
  "falsy x \<Longrightarrow> detectBrowser x = ''Unknown'' \<and> detectOS x = ''Unknown'' \<and>
                detectDevice x = ''unknown'' \<and> cleanReferrer new_URL x = ''direct''"
  by (auto simp: falsy_def detectBrowser_def detectOS_def detectDevice_def cleanReferrer_def
           split: option.splits)

lemma cleanReferrer_Some:
  "s \<noteq> [] \<Longrightarrow>
     cleanReferrer new_URL (Some s) =
       (case new_URL s of
          Inl e \<Rightarrow> ''direct''
        | Inr u \<Rightarrow> if sublist ''allgood.click'' (hostname u) then ''internal''
                   else replace_first ''www.'' [] (hostname u))"
  by (simp add: cleanReferrer_def cleanReferrer_try_def split: sum.split)

text \<open>
  Claim C8. Browser, operating system and device detection and referrer cleaning return
  a value on every input, missing and empty input included. The three detectors return
  one of their fixed categories: the default for missing input on missing or empty input,
  otherwise the category of the first rule of their table that matches, and the default
  category when no rule matches. Referrer cleaning returns \<open>direct\<close> on missing or empty input
  and when \<open>new URL\<close> throws; otherwise \<open>internal\<close> or the host name without its first
  \<open>www.\<close>.
\<close>

theorem classifiers_total:
  "detectBrowser x \<in> {''Unknown'', ''Edge'', ''Opera'', ''Chrome'', ''Safari'', ''Firefox'', ''IE'', ''Other''} \<and>
   detectOS x \<in> {''Unknown'', ''Windows 10/11'', ''Windows'', ''macOS'', ''iOS'', ''iPadOS'',
                  ''Android'', ''Linux'', ''ChromeOS'', ''Other''} \<and>
   detectDevice x \<in> {''unknown'', ''mobile'', ''tablet'', ''desktop''} \<and>
   (falsy x \<longrightarrow> detectBrowser x = ''Unknown'' \<and> detectOS x = ''Unknown'' \<and>
                detectDevice x = ''unknown'' \<and> cleanReferrer new_URL x = ''direct'') \<and>
   (s \<noteq> [] \<longrightarrow>
      detectBrowser (Some s) = first_match browser_rules ''Other'' s \<and>
      detectOS (Some s) = first_match os_rules ''Other'' s \<and>
      detectDevice (Some s) = first_match device_rules ''desktop'' s \<and>
      cleanReferrer new_URL (Some s) =
        (case new_URL s of
           Inl e \<Rightarrow> ''direct''
         | Inr u \<Rightarrow> if sublist ''allgood.click'' (hostname u) then ''internal''
                    else replace_first ''www.'' [] (hostname u))) \<and>
   (s \<noteq> [] \<and> (\<forall>(p, v) \<in> set browser_rules. \<not> p s) \<longrightarrow> detectBrowser (Some s) = ''Other'') \<and>
   (s \<noteq> [] \<and> (\<forall>(p, v) \<in> set os_rules. \<not> p s) \<longrightarrow> detectOS (Some s) = ''Other'') \<and>
   (s \<noteq> [] \<and> (\<forall>(p, v) \<in> set device_rules. \<not> p s) \<longrightarrow> detectDevice (Some s) = ''desktop'')"
  using detectBrowser_cases [of x] detectOS_cases [of x] detectDevice_cases [of x]
    classifiers_falsy [of x new_URL] cleanReferrer_Some [of s new_URL]
    detectBrowser_rules [of s] detectOS_rules [of s] detectDevice_rules [of s]
    first_match_default [of browser_rules s "''Other''"]
    first_match_default [of os_rules s "''Other''"]
    first_match_default [of device_rules s "''desktop''"]
  by presburger

text \<open>
  The theorem of C8 at missing input, at a user agent of Chrome on Linux, at a user agent
  that no rule matches, and at a referrer that is no address.
\<close>

theorem classifiers_total_witness:
  "detectBrowser None = ''Unknown'' \<and> detectOS (Some []) = ''Unknown'' \<and>
   detectBrowser (Some ''(Linux) Chrome/120 Safari/537'') = ''Chrome'' \<and>
   detectOS (Some ''(Linux) Chrome/120 Safari/537'') = ''Linux'' \<and>
   detectDevice (Some ''(Linux) Chrome/120 Safari/537'') = ''desktop'' \<and>
   detectBrowser (Some ''Lynx/2.8.9'') = ''Other'' \<and>
   cleanReferrer (\<lambda>ref. Inl (TypeError ''Invalid URL'')) (Some ''not an address'') = ''direct''"
proof -
  let ?ua = "''(Linux) Chrome/120 Safari/537''"
  let ?new_URL = "\<lambda>ref :: string. Inl (TypeError ''Invalid URL'') :: js_error + url"
  have f: "falsy None" "falsy (Some [])" by (simp_all add: falsy_def)
  have low: "map lower_ascii ?ua = ''(linux) chrome/120 safari/537''"
    "map lower_ascii ''Lynx/2.8.9'' = ''lynx/2.8.9''"
    by (simp_all add: lower_ascii_def char_of_def)
  have b: "first_match browser_rules ''Other'' ?ua = ''Chrome''"
    by (simp add: browser_rules_def test_i_def low lower_ascii_def char_of_def sublist_code prefix_code)
  have o: "first_match os_rules ''Other'' ?ua = ''Linux''"
    by (simp add: os_rules_def test_i_def low lower_ascii_def char_of_def sublist_code prefix_code)
  have d: "first_match device_rules ''desktop'' ?ua = ''desktop''"
    by (simp add: device_rules_def mobile_re_def tablet_re_def test_i_def low lower_ascii_def char_of_def sublist_code prefix_code)
  have n: "\<forall>(p, v) \<in> set browser_rules. \<not> p ''Lynx/2.8.9''"
    by (simp add: browser_rules_def test_i_def low lower_ascii_def char_of_def sublist_code prefix_code)
  have ne: "?ua \<noteq> []" "''Lynx/2.8.9'' \<noteq> []" "''not an address'' \<noteq> []" by simp_all
  from classifiers_total [of None ?new_URL ?ua] f(1) have 1: "detectBrowser None = ''Unknown''"
    by blast
  from classifiers_total [of "Some []" ?new_URL ?ua] f(2) have 2: "detectOS (Some []) = ''Unknown''"
    by blast
  from classifiers_total [of None ?new_URL ?ua] ne(1) b o d
  have 3: "detectBrowser (Some ?ua) = ''Chrome''" "detectOS (Some ?ua) = ''Linux''"
    "detectDevice (Some ?ua) = ''desktop''"
    by presburger+
  from classifiers_total [of None ?new_URL "''Lynx/2.8.9''"] ne(2) n
  have 4: "detectBrowser (Some ''Lynx/2.8.9'') = ''Other''"
    by blast
  from classifiers_total [of None ?new_URL "''not an address''"] ne(3)
  have 5: "cleanReferrer ?new_URL (Some ''not an address'') = ''direct''"
    by simp
  from 1 2 3 4 5 show ?thesis by blast
qed

section \<open>Properties of the pageview table\<close>

lemma trackPageview_appends:
  "trackPageview new_URL fault now req pg d = d \<or>
   (\<exists>r. pageviews (trackPageview new_URL fault now req pg d) = pageviews d @ [r])"
  by (simp add: trackPageview_def insert_row_def split: option.split)

lemma getStats_reads: "snd (getStats tz fault now days d) = d"
  by (simp add: getStats_def Let_def split: option.split sum.split)

lemma cleanupOldData_filters:
  "pageviews (snd (cleanupOldData tz fault now keepDays d)) =
     (case toISOString (setDate_minus tz now keepDays) of
        Inl e \<Rightarrow> pageviews d
      | Inr cutoff \<Rightarrow>
          (case fault of
             Some e \<Rightarrow> pageviews d
           | None \<Rightarrow> filter (\<lambda>r. \<not> text_less (timestamp r) cutoff) (pageviews d)))"
  by (simp add: cleanupOldData_def Let_def split: option.split sum.split)

lemma text_less_blank_T: "text_less (p @ '' '' @ x) (p @ ''T'' @ y)"
  by (induction p) simp_all

text \<open>A row stored on the day of the cutoff counts as older, whatever its time of day.\<close>

lemma same_day_is_older:
  assumes "iso_date t2 = ymd t1"
  shows "\<exists>cutoff. toISOString (Some t2) = Inr cutoff \<and> text_less (CURRENT_TIMESTAMP t1) cutoff"
  using assms
  by (simp add: CURRENT_TIMESTAMP_def toISOString_def text_less_blank_T del: append.simps)

lemma pageview_of_example:
  "pageview_of (\<lambda>ref. Inl (TypeError ''Invalid URL''))
      \<lparr>headers = (\<lambda>h. None), ip = Some ''203.0.113.42'', remoteAddress = None\<rparr> ''/'' =
     \<lparr>row_id = 0, timestamp = [], page = ''/'',
      ip_anonymized = ''203.0.113.xxx'', country = ''UNKNOWN'', language = ''en'',
      referrer = ''direct'', user_agent = [], browser = ''Unknown'', os = ''Unknown'',
      device_type = ''unknown'', is_bot = 1\<rparr>"
  by (simp add: pageview_of_def or_default_def or_else_def falsy_def extractCountryFromLang_def
      langMatch_def anonymizeIP_def toUpperCase_def toLowerCase_def upper_ascii_def lower_ascii_def
      char_of_def cleanReferrer_def detectBrowser_def detectOS_def detectDevice_def isBot_def)

lemma toISOString_example: "toISOString (Some 1736488800000) = Inr ''2025-01-10T06:00:00.000Z''"
  by code_simp

lemma CURRENT_TIMESTAMP_example: "CURRENT_TIMESTAMP 1736532000000 = ''2025-01-10 18:00:00''"
  by code_simp

text \<open>
  Claim C9 does not hold of \<open>cleanupOldData\<close>. On a server whose time zone is UTC, a page
  view is stored on 2025-01-10 at 18:00:00 UTC (time value 1736532000000), so its
  timestamp is the text \<open>2025-01-10 18:00:00\<close>. The cleanup runs on 2025-04-10 at 06:00:00
  UTC (time value 1744264800000) and keeps 90 days: the cutoff is 2025-01-10 at 06:00:00
  UTC, twelve hours before the page view, and is bound as the text
  \<open>2025-01-10T06:00:00.000Z\<close>. The two texts agree up to the date; then the blank of the
  timestamp is smaller than the \<open>T\<close> of the cutoff, and the row, newer than the cutoff, is
  deleted.
\<close>

theorem cleanupOldData_deletes_newer_row:
  "trackPageview (\<lambda>ref. Inl (TypeError ''Invalid URL'')) None 1736532000000
      \<lparr>headers = (\<lambda>h. None), ip = Some ''203.0.113.42'', remoteAddress = None\<rparr> ''/''
      \<lparr>pageviews = [], sequence = 0\<rparr> =
     \<lparr>pageviews =
        [\<lparr>row_id = 1, timestamp = ''2025-01-10 18:00:00'', page = ''/'',
          ip_anonymized = ''203.0.113.xxx'', country = ''UNKNOWN'', language = ''en'',
          referrer = ''direct'', user_agent = [], browser = ''Unknown'', os = ''Unknown'',
          device_type = ''unknown'', is_bot = 1\<rparr>],
      sequence = 1\<rparr> \<and>
   setDate_minus \<lparr>LocalTZA_utc = (\<lambda>t. 0), LocalTZA_local = (\<lambda>t. 0)\<rparr> 1744264800000 90 =
     Some 1736488800000 \<and>
   (1736488800000 :: int) < 1736532000000 \<and>
   toISOString (Some 1736488800000) = Inr ''2025-01-10T06:00:00.000Z'' \<and>
   cleanupOldData \<lparr>LocalTZA_utc = (\<lambda>t. 0), LocalTZA_local = (\<lambda>t. 0)\<rparr> None 1744264800000 90
     \<lparr>pageviews =
        [\<lparr>row_id = 1, timestamp = ''2025-01-10 18:00:00'', page = ''/'',
          ip_anonymized = ''203.0.113.xxx'', country = ''UNKNOWN'', language = ''en'',
          referrer = ''direct'', user_agent = [], browser = ''Unknown'', os = ''Unknown'',
          device_type = ''unknown'', is_bot = 1\<rparr>],
      sequence = 1\<rparr> =
     (Inr 1, \<lparr>pageviews = [], sequence = 1\<rparr>)"
proof -
  have cutoff: "setDate_minus \<lparr>LocalTZA_utc = (\<lambda>t. 0), LocalTZA_local = (\<lambda>t. 0)\<rparr> 1744264800000 90 =
      Some 1736488800000"
    by (simp add: setDate_minus_def msPerDay_def TimeClip_def)
  have less: "text_less ''2025-01-10 18:00:00'' ''2025-01-10T06:00:00.000Z''"
    by simp
  show ?thesis
    using less
    by (simp add: trackPageview_def insert_row_def pageview_of_example CURRENT_TIMESTAMP_example
        cleanupOldData_def cutoff toISOString_example del: text_less.simps)
qed

section \<open>Properties of numbers\<close>











text \<open>
  With a percentage that has decimals, the quotient of doubles can fall on the other side
  of a half: 32.8 is held as the double 2308094809027379 / 2^46, a total of 83 gives 62
  where the exact quotient, 62.5, rounds to 63.
\<close>

lemma double_quotient_example:
  "Math_round (js_div (js_mul 83 100) (js_add 100 (2308094809027379 / 70368744177664))) = 62 \<and>
   fl (328 / 10) = 2308094809027379 / 70368744177664 \<and>
   Math_round (83 * 100 / (100 + 328 / 10)) = 63"
  by code_simp

section \<open>Properties of the tax data\<close>



lemma invoice_tax_data_zero:
  "or0 (tax invc) = 0 \<Longrightarrow>
     invoice_tax_data r invc =
       Inr \<lparr>taxAmount = 0, taxRatePercentage = 0, subtotalAmount = total invc,
            logged = [ReverseChargeDetected]\<rparr>"
  by (simp add: invoice_tax_data_def)

lemma or0_zero_iff: "or0 x = (0::int) \<longleftrightarrow> x \<in> {None, Some 0}"
  by (cases x) (auto simp: or0_def)

text \<open>
  On an invoice, no tax collected is a reverse charge: the net amount is the total, the
  tax and the rate are 0, whatever the lines carry.
\<close>

lemma invoice_zero_tax_is_reverse_charge:
  "tax invc \<in> {None, Some 0} \<Longrightarrow>
     invoice_tax_data retrieve invc =
       Inr \<lparr>taxAmount = 0, taxRatePercentage = 0, subtotalAmount = total invc,
            logged = [ReverseChargeDetected]\<rparr>"
  using invoice_tax_data_zero [of invc retrieve] by (simp add: or0_zero_iff)


lemma invoice_tax_data_no_amounts:
  assumes "invoiceLineTaxAmounts invc = []"
  shows "invoice_tax_data r invc =
           Inr (if or0 (tax invc) = 0
                then \<lparr>taxAmount = 0, taxRatePercentage = 0, subtotalAmount = total invc,
                      logged = [ReverseChargeDetected]\<rparr>
                else \<lparr>taxAmount = or0 (tax invc), taxRatePercentage = 0,
                      subtotalAmount = or0 (subtotal invc), logged = []\<rparr>)"
  using assms by (simp add: invoice_tax_data_def)

text \<open>The fallback for a session without invoice yields no tax data, whatever the session.\<close>

lemma session_tax_data_throws:
  "session_tax_data fullSession = Inl (ReferenceError ''isInclusive is not defined'')"
  by (simp add: session_tax_data_def)

lemma checkout_tax_data_without_invoice:
  "invoice fullSession = None \<Longrightarrow>
     checkout_tax_data stripe fullSession = Inl (ReferenceError ''isInclusive is not defined'')"
  by (simp add: checkout_tax_data_def session_tax_data_throws)




text \<open>
  Claim C2 does not hold of the fallback for a session without invoice. A completed
  session of 9.99 without invoice, for which the provider reports a tax of 0 and whose
  line item carries an inclusive rate of 20 percent, is recognised as reverse charge:
  the variables hold the total as net amount, a tax of 0 and a rate of 0. The log
  statement that follows reads \<open>isInclusive\<close> outside its block and throws, so that the
  handler gets no tax data and nothing is sent to Zoho, enabled though it is.
\<close>

theorem session_fallback_throws:
  "session_tax_variables
     \<lparr>session_id = ''cs_test_1'', invoice = None, amount_total = 999, amount_tax = Some 0,
      line_items = [\<lparr>taxes = [\<lparr>rate = Some \<lparr>percentage = Some 20, inclusive = True\<rparr>\<rparr>]\<rparr>], currency = ''eur'', mode = ''payment'',
      customer = None, customer_email = None, payment_intent = None, details_email = None,
      details_name = None, details_country = Some ''DE'', tax_ids = [], tax_exempt = None\<rparr> =
     \<lparr>taxAmount = 0, taxRatePercentage = 0, subtotalAmount = 999,
      logged = [ReverseChargeDetected]\<rparr> \<and>
   checkout_tax_data
     \<lparr>sessions_retrieve = (\<lambda>i. Inr
      \<lparr>session_id = ''cs_test_1'', invoice = None, amount_total = 999, amount_tax = Some 0,
        line_items = [\<lparr>taxes = [\<lparr>rate = Some \<lparr>percentage = Some 20, inclusive = True\<rparr>\<rparr>]\<rparr>], currency = ''eur'', mode = ''payment'',
        customer = None, customer_email = None, payment_intent = None, details_email = None,
        details_name = None, details_country = Some ''DE'', tax_ids = [], tax_exempt = None\<rparr>),
      invoices_retrieve = (\<lambda>i. Inl (Error ''No such invoice'')),
      taxRates_retrieve = (\<lambda>i. Inl (Error ''No such tax rate''))\<rparr>
     \<lparr>session_id = ''cs_test_1'', invoice = None, amount_total = 999, amount_tax = Some 0,
      line_items = [\<lparr>taxes = [\<lparr>rate = Some \<lparr>percentage = Some 20, inclusive = True\<rparr>\<rparr>]\<rparr>], currency = ''eur'', mode = ''payment'',
      customer = None, customer_email = None, payment_intent = None, details_email = None,
      details_name = None, details_country = Some ''DE'', tax_ids = [], tax_exempt = None\<rparr> =
     Inl (ReferenceError ''isInclusive is not defined'') \<and>
   checkout_completed
     \<lparr>sessions_retrieve = (\<lambda>i. Inr
      \<lparr>session_id = ''cs_test_1'', invoice = None, amount_total = 999, amount_tax = Some 0,
        line_items = [\<lparr>taxes = [\<lparr>rate = Some \<lparr>percentage = Some 20, inclusive = True\<rparr>\<rparr>]\<rparr>], currency = ''eur'', mode = ''payment'',
        customer = None, customer_email = None, payment_intent = None, details_email = None,
        details_name = None, details_country = Some ''DE'', tax_ids = [], tax_exempt = None\<rparr>),
      invoices_retrieve = (\<lambda>i. Inl (Error ''No such invoice'')),
      taxRates_retrieve = (\<lambda>i. Inl (Error ''No such tax rate''))\<rparr>
     \<lparr>getZohoAccessToken = Inr ''token'', findOrCreateZohoCustomer = Inr ''460000000026049'',
      post_invoice = (\<lambda>p. Inr (''INV-000001'', ''460000000028192''))\<rparr>
     True False
     \<lparr>session_id = ''cs_test_1'', invoice = None, amount_total = 999, amount_tax = Some 0,
      line_items = [\<lparr>taxes = [\<lparr>rate = Some \<lparr>percentage = Some 20, inclusive = True\<rparr>\<rparr>]\<rparr>], currency = ''eur'', mode = ''payment'',
      customer = None, customer_email = None, payment_intent = None, details_email = None,
      details_name = None, details_country = Some ''DE'', tax_ids = [], tax_exempt = None\<rparr> =
     [SendPaymentNotification ''success'' True, RetrieveSession ''cs_test_1'']"
  by (simp add: session_tax_variables_def or0_def checkout_tax_data_def session_tax_data_def
      checkout_completed_def)

text \<open>
  Claim C4, as amended. On an invoice whose first line has no tax amounts, or that has no
  line: if the reported tax is zero or missing, the net amount is the total, and the tax
  and the rate are zero; otherwise the tax amount is the reported tax, the rate is zero
  and the net amount is the subtotal of the invoice, zero when it is missing.
\<close>

theorem no_tax_metadata:
  assumes "invoiceLineTaxAmounts invc = []"
  shows "invoice_tax_data retrieve invc =
           Inr (if or0 (tax invc) = 0
                then \<lparr>taxAmount = 0, taxRatePercentage = 0, subtotalAmount = total invc,
                      logged = [ReverseChargeDetected]\<rparr>
                else \<lparr>taxAmount = or0 (tax invc), taxRatePercentage = 0,
                      subtotalAmount = or0 (subtotal invc), logged = []\<rparr>)"
  using assms by (rule invoice_tax_data_no_amounts)

text \<open>
  The theorem of C4 at an invoice without lines and without tax, and at an invoice with a
  tax whose line has no tax amounts.
\<close>

theorem no_tax_metadata_witness:
  "invoice_tax_data (\<lambda>i. Inl (Error ''No such tax rate''))
     \<lparr>tax = None, total = 1000, subtotal = Some 1000, lines = []\<rparr> =
     Inr \<lparr>taxAmount = 0, taxRatePercentage = 0, subtotalAmount = 1000,
          logged = [ReverseChargeDetected]\<rparr> \<and>
   invoice_tax_data (\<lambda>i. Inl (Error ''No such tax rate''))
     \<lparr>tax = Some 210, total = 1210, subtotal = Some 1000, lines = [\<lparr>tax_amounts = []\<rparr>]\<rparr> =
     Inr \<lparr>taxAmount = 210, taxRatePercentage = 0, subtotalAmount = 1000, logged = []\<rparr>"
proof -
  let ?a = "\<lparr>tax = None, total = 1000, subtotal = Some 1000, lines = []\<rparr>"
  let ?b = "\<lparr>tax = Some 210, total = 1210, subtotal = Some 1000, lines = [\<lparr>tax_amounts = []\<rparr>]\<rparr>"
  have a: "invoiceLineTaxAmounts ?a = []" and b: "invoiceLineTaxAmounts ?b = []"
    by (simp_all add: invoiceLineTaxAmounts_def)
  from no_tax_metadata [OF a] no_tax_metadata [OF b] show ?thesis
    by (simp add: or0_def)
qed

text \<open>
  Claim C4 as stated fails when the provider reports a tax: an invoice of 12.10 with a tax
  of 2.10 and a subtotal of 10.00 whose line has no tax amounts keeps the tax 2.10 and
  gets the net 10.00, not the total and not a zero tax.
\<close>

theorem no_tax_metadata_keeps_tax:
  "invoice_tax_data (\<lambda>i. Inl (Error ''No such tax rate''))
     \<lparr>tax = Some 210, total = 1210, subtotal = Some 1000, lines = [\<lparr>tax_amounts = []\<rparr>]\<rparr> =
     Inr \<lparr>taxAmount = 210, taxRatePercentage = 0, subtotalAmount = 1000, logged = []\<rparr> \<and>
   (1000 :: int) \<noteq> 1210 \<and> (210 :: int) \<noteq> 0"
  by (simp add: invoice_tax_data_def invoiceLineTaxAmounts_def or0_def)

section \<open>Properties of the Zoho invoice and of the webhook\<close>

lemma TAX_IDS_keys: "map fst TAX_IDS = [0..30]"
  unfolding TAX_IDS_def by code_simp

lemma TAX_IDS_None_iff: "map_of TAX_IDS n = None \<longleftrightarrow> n < 0 \<or> 30 < n"
proof -
  have "map_of TAX_IDS n = None \<longleftrightarrow> n \<notin> set (map fst TAX_IDS)"
    by (simp add: map_of_eq_None_iff)
  also have "\<dots> \<longleftrightarrow> n \<notin> {0..30}"
    unfolding TAX_IDS_keys by simp
  finally show ?thesis by auto
qed

lemma createZohoInvoice_unmapped:
  assumes "map_of TAX_IDS (Math_round (d_taxRatePercentage invoiceData)) = None"
  shows "createZohoInvoice zoho invoiceData =
           (case getZohoAccessToken zoho of
              Inl e \<Rightarrow> Inl (TokenError e)
            | Inr accessToken \<Rightarrow>
                (case findOrCreateZohoCustomer zoho of
                   Inl e \<Rightarrow> Inl (CustomerFailed e)
                 | Inr customerId \<Rightarrow>
                     Inl (NoTaxMapping (d_taxRatePercentage invoiceData)
                            (Math_round (d_taxRatePercentage invoiceData)))))"
  using assms by (simp add: createZohoInvoice_def Let_def split: sum.split)

lemma getZohoTaxId_fallback:
  "getZohoTaxId (invoiceData\<lparr>d_country := Some ''ES'', d_taxRatePercentage := 37\<rparr>) = IVA_21"
  by (simp add: getZohoTaxId_def isEUCountry_def EU_COUNTRIES_def toUpperCase_def
      upper_ascii_def char_of_def)

text \<open>
  Claim C3. When the rounded tax rate has no entry in the table of tax identifiers, which
  is the case exactly when it is below 0 or above 30, \<open>createZohoInvoice\<close> never yields an
  invoice, whatever the country and the VAT number are and whatever Zoho answers: no
  default identifier stands in. Once the access token and the customer are there, the
  failure is the explicit error that names the rate and its rounding.
\<close>

theorem unmapped_rate_fails:
  assumes "map_of TAX_IDS (Math_round (d_taxRatePercentage invoiceData)) = None"
  shows "(Math_round (d_taxRatePercentage invoiceData) < 0 \<or>
          30 < Math_round (d_taxRatePercentage invoiceData)) \<and>
         isl (createZohoInvoice zoho invoiceData) \<and>
         (getZohoAccessToken zoho = Inr accessToken \<and> findOrCreateZohoCustomer zoho = Inr customerId \<longrightarrow>
            createZohoInvoice zoho invoiceData =
              Inl (NoTaxMapping (d_taxRatePercentage invoiceData)
                     (Math_round (d_taxRatePercentage invoiceData))))"
proof (intro conjI impI)
  show "Math_round (d_taxRatePercentage invoiceData) < 0 \<or>
        30 < Math_round (d_taxRatePercentage invoiceData)"
    using assms by (simp add: TAX_IDS_None_iff)
next
  show "isl (createZohoInvoice zoho invoiceData)"
    unfolding createZohoInvoice_unmapped [OF assms] by (simp split: sum.split)
next
  assume "getZohoAccessToken zoho = Inr accessToken \<and> findOrCreateZohoCustomer zoho = Inr customerId"
  then show "createZohoInvoice zoho invoiceData =
      Inl (NoTaxMapping (d_taxRatePercentage invoiceData)
             (Math_round (d_taxRatePercentage invoiceData)))"
    unfolding createZohoInvoice_unmapped [OF assms] by simp
qed

text \<open>
  The theorem of C3 at a Spanish customer and a rate of 37 percent, with Zoho answering
  every call.
\<close>

theorem unmapped_rate_fails_witness:
  "createZohoInvoice
     \<lparr>getZohoAccessToken = Inr ''token'', findOrCreateZohoCustomer = Inr ''460000000026049'',
      post_invoice = (\<lambda>p. Inr (''INV-000001'', ''460000000028192''))\<rparr>
     \<lparr>d_amount = 137, d_subtotal = 100, d_taxAmount = 37, d_currency = ''eur'',
      d_customerEmail = Some ''a@example.com'', d_customerName = None, d_country = Some ''ES'',
      d_vatNumber = None, d_taxExempt = ''none'', d_taxRatePercentage = 37,
      d_paymentType = ''payment'', d_stripeSessionId = ''cs_test_1'', d_paymentIntentId = None,
      d_isTestMode = True\<rparr> =
     Inl (NoTaxMapping 37 37)"
proof -
  let ?zoho = "\<lparr>getZohoAccessToken = Inr ''token'', findOrCreateZohoCustomer = Inr ''460000000026049'',
      post_invoice = (\<lambda>p :: zoho_payload. Inr (''INV-000001'', ''460000000028192'') :: string + string \<times> string)\<rparr>"
  let ?d = "\<lparr>d_amount = 137, d_subtotal = 100, d_taxAmount = 37, d_currency = ''eur'',
      d_customerEmail = Some ''a@example.com'', d_customerName = None, d_country = Some ''ES'',
      d_vatNumber = None, d_taxExempt = ''none'', d_taxRatePercentage = 37,
      d_paymentType = ''payment'', d_stripeSessionId = ''cs_test_1'', d_paymentIntentId = None,
      d_isTestMode = True\<rparr>"
  have r: "Math_round (d_taxRatePercentage ?d) = 37" by code_simp
  have "map_of TAX_IDS (Math_round (d_taxRatePercentage ?d)) = None"
    unfolding r by (simp add: TAX_IDS_def)
  from unmapped_rate_fails [OF this, of ?zoho "''token''" "''460000000026049''"] r
  show ?thesis by simp
qed

lemma webhook_verified_checkout:
  assumes "constructEvent (raw_body req) (stripe_signature req) =
             Inr \<lparr>livemode = live, payload = CheckoutSessionCompleted session\<rparr>"
  shows "\<exists>rest. webhook constructEvent stripe zoho ZOHO_ENABLED req =
           (\<lparr>status = 200, body = Json_received\<rparr>,
            SendPaymentNotification ''success'' (\<not> live) # RetrieveSession (session_id session) # rest)"
  using assms by (simp add: webhook_def checkout_completed_def)

text \<open>
  Claim C5. When the verification of the signature fails, the webhook answers with status
  400 and the message of the failure, and does nothing else: it sends no mail, fetches
  nothing from Stripe and creates nothing in Zoho.
\<close>

theorem webhook_rejects_bad_signature:
  assumes "constructEvent (raw_body req) (stripe_signature req) = Inl message"
  shows "webhook constructEvent stripe zoho ZOHO_ENABLED req =
           (\<lparr>status = 400, body = Send (''Webhook Error: '' @ message)\<rparr>, [])"
  using assms by (simp add: webhook_def)

text \<open>The theorem of C5 at a request without signature header.\<close>

theorem webhook_rejects_bad_signature_witness:
  "webhook (\<lambda>b sig. case sig of None \<Rightarrow> Inl ''No stripe-signature header value was provided.''
                               | Some v \<Rightarrow> Inr \<lparr>livemode = False, payload = Unhandled ''ping''\<rparr>)
     \<lparr>sessions_retrieve = (\<lambda>i. Inl (Error ''unreachable'')),
      invoices_retrieve = (\<lambda>i. Inl (Error ''unreachable'')),
      taxRates_retrieve = (\<lambda>i. Inl (Error ''unreachable''))\<rparr>
     \<lparr>getZohoAccessToken = Inl ''unreachable'', findOrCreateZohoCustomer = Inl ''unreachable'',
      post_invoice = (\<lambda>p. Inl ''unreachable'')\<rparr>
     True
     \<lparr>raw_body = ''{}'', stripe_signature = None\<rparr> =
     (\<lparr>status = 400,
       body = Send ''Webhook Error: No stripe-signature header value was provided.''\<rparr>, [])"
proof -
  let ?c = "\<lambda>(b :: string) sig :: string option.
              case sig of None \<Rightarrow> Inl ''No stripe-signature header value was provided.''
                        | Some v \<Rightarrow> Inr \<lparr>livemode = False, payload = Unhandled ''ping''\<rparr>"
  let ?req = "\<lparr>raw_body = ''{}'', stripe_signature = None\<rparr>"
  have "?c (raw_body ?req) (stripe_signature ?req) = Inl ''No stripe-signature header value was provided.''"
    by simp
  from webhook_rejects_bad_signature [of ?c ?req, OF this] show ?thesis by simp
qed

end
